theory Spec2Isabelle
  imports Main
begin

section \<open>Values decoded from the server\<close>

text \<open>
  The bot of \<^verbatim>\<open>scripts/demo_ai_bot.py\<close> reads every server reply with
  \<^verbatim>\<open>response.json()\<close>. The decoded value is a Python \<^verbatim>\<open>None\<close>, bool, int,
  str, list or dict; dict keys are strings and keep their order. Numbers with a
  fraction are not part of the model (no operation below reads one).
\<close>

datatype json =
    JNull
  | JBool bool
  | JNum int
  | JStr string
  | JArr "json list"
  | JObj "(string \<times> json) list"

text \<open>Python truthiness, as used by \<^verbatim>\<open>if self.sync_token:\<close> and \<^verbatim>\<open>if sync_data:\<close>.\<close>

fun py_truthy :: "json \<Rightarrow> bool" where
  "py_truthy JNull = False"
| "py_truthy (JBool b) = b"
| "py_truthy (JNum n) = (n \<noteq> 0)"
| "py_truthy (JStr s) = (s \<noteq> [])"
| "py_truthy (JArr xs) = (xs \<noteq> [])"
| "py_truthy (JObj d) = (d \<noteq> [])"

text \<open>Python \<^verbatim>\<open>==\<close> on decoded values: \<^verbatim>\<open>True == 1\<close>, dicts compare without order.\<close>

fun py_eq :: "json \<Rightarrow> json \<Rightarrow> bool" where
  "py_eq JNull JNull = True"
| "py_eq (JBool a) (JBool b) = (a = b)"
| "py_eq (JBool a) (JNum n) = (n = (if a then 1 else 0))"
| "py_eq (JNum n) (JBool a) = (n = (if a then 1 else 0))"
| "py_eq (JNum a) (JNum b) = (a = b)"
| "py_eq (JStr a) (JStr b) = (a = b)"
| "py_eq (JArr xs) (JArr ys) = list_all2 py_eq xs ys"
| "py_eq (JObj a) (JObj b) =
     (list_all (\<lambda>(k, v). case map_of b k of None \<Rightarrow> False | Some w \<Rightarrow> py_eq v w) a
      \<and> list_all (\<lambda>(k, w). map_of a k \<noteq> None) b)"
| "py_eq _ _ = False"

text \<open>
  Exceptions are values. \<open>TimeoutError\<close> is \<^verbatim>\<open>asyncio.TimeoutError\<close>, \<open>ClientError\<close>
  a transport failure of the HTTP client, \<open>ValueError\<close> a body that does not decode,
  the others are the built-in exceptions of the same name. All of them are subclasses
  of \<^verbatim>\<open>Exception\<close>; interrupts delivered by the runtime (\<^verbatim>\<open>KeyboardInterrupt\<close>) are not
  produced by any operation of the bot and are outside the model. An expression
  evaluated by the calculator may raise an exception of any class; the only handler it
  meets is the bare \<^verbatim>\<open>except:\<close> of \<^verbatim>\<open>cmd_calculate\<close>, which treats all classes alike,
  so one of the listed exceptions stands for it.
\<close>

datatype exn =
    TimeoutError
  | ClientError
  | ValueError
  | SyntaxError
  | ZeroDivisionError
  | KeyError
  | TypeError
  | AttributeError

datatype 'a outcome = Returned 'a | Raised exn

text \<open>
  A computation on values ends: it returns or it raises. A call of a method of the bot
  has a third way to go: it may fail to return at all, because an expression handed to
  \<^verbatim>\<open>eval\<close> runs forever or ends the process (\<^verbatim>\<open>os._exit\<close>). Nothing that comes
  after such a call in the source is run.
\<close>

datatype 'a completion = Done 'a | Thrown exn | Never_returns

fun completed :: "'a outcome \<Rightarrow> 'a completion" where
  "completed (Returned x) = Done x"
| "completed (Raised e) = Thrown e"

text \<open>\<^verbatim>\<open>data[key]\<close> with a string key.\<close>

fun subscript :: "json \<Rightarrow> string \<Rightarrow> json outcome" where
  "subscript (JObj d) k = (case map_of d k of Some v \<Rightarrow> Returned v | None \<Rightarrow> Raised KeyError)"
| "subscript _ k = Raised TypeError"

text \<open>\<^verbatim>\<open>data.get(key, default)\<close>: only a dict has the method.\<close>

fun py_get :: "json \<Rightarrow> string \<Rightarrow> json \<Rightarrow> json outcome" where
  "py_get (JObj d) k dflt = Returned (case map_of d k of Some v \<Rightarrow> v | None \<Rightarrow> dflt)"
| "py_get _ k dflt = Raised AttributeError"

section \<open>Strings\<close>

text \<open>
  A Python \<^verbatim>\<open>str\<close> is kept as its UTF-8 bytes. Where the source counts characters
  (a slice \<^verbatim>\<open>s[:n]\<close>, iteration over a str) the model counts code points: a lead byte
  with the continuation bytes \<open>0x80..0xBF\<close> that follow it.
\<close>

definition is_cont :: "char \<Rightarrow> bool" where
  "is_cont c = (128 \<le> (of_char c :: nat) \<and> (of_char c :: nat) < 192)"

fun code_points :: "string \<Rightarrow> string list" where
  "code_points [] = []"
| "code_points (c # cs) =
     (case code_points cs of
        [] \<Rightarrow> [[c]]
      | g # gs \<Rightarrow> (case g of
                    [] \<Rightarrow> [c] # g # gs
                  | b # _ \<Rightarrow> if is_cont b then (c # g) # gs else [c] # g # gs))"

definition take_chars :: "nat \<Rightarrow> string \<Rightarrow> string" where
  "take_chars n s = concat (take n (code_points s))"

text \<open>\<^verbatim>\<open>for x in value\<close>: a list gives its elements, a dict its keys, a str its characters.\<close>

fun py_iter :: "json \<Rightarrow> json list outcome" where
  "py_iter (JArr xs) = Returned xs"
| "py_iter (JObj d) = Returned (map (\<lambda>(k, v). JStr k) d)"
| "py_iter (JStr s) = Returned (map JStr (code_points s))"
| "py_iter _ = Raised TypeError"

fun starts_with :: "string \<Rightarrow> string \<Rightarrow> bool" where
  "starts_with [] s = True"
| "starts_with (p # ps) [] = False"
| "starts_with (p # ps) (c # cs) = (p = c \<and> starts_with ps cs)"

text \<open>\<^verbatim>\<open>sub in s\<close>.\<close>

fun contains :: "string \<Rightarrow> string \<Rightarrow> bool" where
  "contains sub [] = (sub = [])"
| "contains sub (c # cs) = (starts_with sub (c # cs) \<or> contains sub cs)"

text \<open>
  \<^verbatim>\<open>command.split(" ", 1)\<close>: the text before the first space, and the text after
  it when there is a space (\<^verbatim>\<open>cmd_parts[0]\<close> and, if present, \<^verbatim>\<open>cmd_parts[1]\<close>).
\<close>

definition split_once :: "string \<Rightarrow> string \<times> string option" where
  "split_once s =
     (takeWhile (\<lambda>c. c \<noteq> CHR '' '') s,
      case dropWhile (\<lambda>c. c \<noteq> CHR '' '') s of [] \<Rightarrow> None | _ # rest \<Rightarrow> Some rest)"

text \<open>\<^verbatim>\<open>args.replace("^", "**")\<close>.\<close>

definition replace_caret :: "string \<Rightarrow> string" where
  "replace_caret s = concat (map (\<lambda>c. if c = CHR ''^'' then ''**'' else [c]) s)"

definition is_ascii :: "string \<Rightarrow> bool" where
  "is_ascii s = list_all (\<lambda>c. (of_char c :: nat) < 128) s"

definition ascii_lower :: "char \<Rightarrow> char" where
  "ascii_lower c =
     (let n = (of_char c :: nat) in if 65 \<le> n \<and> n \<le> 90 then char_of (n + 32) else c)"

definition ascii_space :: "char \<Rightarrow> bool" where
  "ascii_space c = (let n = (of_char c :: nat) in (9 \<le> n \<and> n \<le> 13) \<or> (28 \<le> n \<and> n \<le> 32))"

definition ascii_strip :: "string \<Rightarrow> string" where
  "ascii_strip s = rev (dropWhile ascii_space (rev (dropWhile ascii_space s)))"

fun digit_char :: "nat \<Rightarrow> char" where
  "digit_char n = char_of (48 + n)"

fun show_nat :: "nat \<Rightarrow> string" where
  "show_nat n = (if n < 10 then [digit_char n] else show_nat (n div 10) @ [digit_char (n mod 10)])"

declare show_nat.simps [simp del]

section \<open>The bot object\<close>

datatype meth = GET | POST | PUT

record request =
  req_method :: meth
  url :: string
  headers :: "(string \<times> string) list"
  params :: "(string \<times> json) list"
  body :: "json option"
  timeout :: "nat option"

datatype level = DEBUG | INFO | WARNING | ERROR

text \<open>
  The trace lists, in order, what the bot does: the requests it sends, the delays it
  awaits (in milliseconds), the log records it writes (level and the fixed words of the
  message), and the two hand-overs of the router: \<open>Dispatch room command sender\<close> is
  the call of \<^verbatim>\<open>handle_command\<close>, \<open>Respond room message sender\<close> the call of
  \<^verbatim>\<open>handle_ai_response\<close>.
\<close>

datatype action =
    Http request
  | Sleep nat
  | Log level string
  | Dispatch string string json
  | Respond string string json

record bot =
  access_token :: json
  user_id :: json
  device_id :: json
  sync_token :: json
  rooms :: "(json \<times> json) list"
  running :: bool
  messages_sent :: nat
  commands_processed :: nat
  rooms_joined :: nat
  tick :: nat
  trace :: "action list"

text \<open>\<^verbatim>\<open>__init__\<close>: no credential, no cursor, no room, counters at zero.\<close>

definition new_bot :: bot where
  "new_bot =
     \<lparr>access_token = JNull, user_id = JNull, device_id = JNull, sync_token = JNull,
      rooms = [], running = False, messages_sent = 0, commands_processed = 0,
      rooms_joined = 0, tick = 0, trace = []\<rparr>"

section \<open>The host: network, clock, random source, Python runtime\<close>

text \<open>
  Everything the bot obtains from outside is read from the host. A read is indexed by
  the tick, the number of reads made so far, so the host may answer each request, clock
  reading and random draw differently.

  \<^item> \<open>http H k\<close>: what the request made at tick \<open>k\<close> yields, either a response with its
    status and the result of \<^verbatim>\<open>await response.json()\<close>, or the exception the request raises.
  \<^item> \<open>clock_ms\<close>, \<open>now_text\<close>, \<open>uptime_hours_text\<close>, \<open>uptime_seconds_text\<close>: the clock,
    as \<^verbatim>\<open>int(time.time() * 1000)\<close> and as the texts that \<^verbatim>\<open>strftime\<close> and the float
    formats \<^verbatim>\<open>.1f\<close>, \<^verbatim>\<open>.0f\<close> produce.
  \<^item> \<open>choice\<close>: the index drawn by \<^verbatim>\<open>random.choice\<close> (taken modulo the length).
  \<^item> \<open>host_eval\<close>: Python's built-in \<^verbatim>\<open>eval\<close>, called inside \<^verbatim>\<open>cmd_calculate\<close> with
    \<^verbatim>\<open>self\<close> in scope, on the bot object as it is and an expression text. It yields the
    value formatted as in an f-string, or the exception raised, or \<open>Never_returns\<close>;
    and the bot object as the evaluation leaves it: the expression may rewrite the
    credential, the identity, the cursor, the room table, the counters and the loop
    flag (\<^verbatim>\<open>setattr(self, 'sync_token', 'evil')\<close>).
  \<^item> \<open>unicode_lower\<close>, \<open>unicode_strip\<close>: \<^verbatim>\<open>str.lower\<close> and \<^verbatim>\<open>str.strip\<close> on text with
    characters outside ASCII (on ASCII text they are defined below).
  \<^item> \<open>render\<close>: the f-string text of a value that is not a str.

  Three things an evaluated expression could do are not represented. The attributes
  keep their kind: the counters stay numbers, the room table a dict, the identity a
  decoded value. The code stays as written: an expression that replaces a method, the
  command table or a module function is not followed. And the trace lists what the
  bot's own code does: requests or log records that the evaluated expression makes by
  itself are not in it.
\<close>

datatype http_outcome = Response nat "json outcome" | Failed exn

record host =
  http :: "nat \<Rightarrow> http_outcome"
  clock_ms :: "nat \<Rightarrow> nat"
  now_text :: "nat \<Rightarrow> string"
  uptime_hours_text :: "nat \<Rightarrow> string"
  uptime_seconds_text :: "nat \<Rightarrow> string"
  choice :: "nat \<Rightarrow> nat"
  host_eval :: "bot \<Rightarrow> string \<Rightarrow> string completion \<times> bot"
  unicode_lower :: "string \<Rightarrow> string"
  unicode_strip :: "string \<Rightarrow> string"
  render :: "json \<Rightarrow> string"

text \<open>
  On two kinds of expression text the result of \<^verbatim>\<open>eval\<close> is fixed by the language, and
  the model computes it instead of asking the host. Both are texts of at most 1000
  characters made of decimal digits, spaces and the operators \<^verbatim>\<open>+ - *\<close> only:
  \<^item> numbers without a leading zero joined by single operators evaluate to an int,
    \<^verbatim>\<open>*\<close> binding tighter than \<^verbatim>\<open>+\<close> and \<^verbatim>\<open>-\<close>, formatted in decimal;
  \<^item> a text whose last token is an operator is a \<^verbatim>\<open>SyntaxError\<close>.
  Every other text (names, calls, \<^verbatim>\<open>/\<close>, \<^verbatim>\<open>**\<close>, parentheses, ...) is left to the host.
\<close>

datatype token = TNum nat | TOp char

definition is_digit :: "char \<Rightarrow> bool" where
  "is_digit c = (48 \<le> (of_char c :: nat) \<and> (of_char c :: nat) \<le> 57)"

definition digit_value :: "char \<Rightarrow> nat" where
  "digit_value c = (of_char c :: nat) - 48"

definition push :: "nat option \<Rightarrow> token list \<Rightarrow> token list" where
  "push cur acc = (case cur of None \<Rightarrow> acc | Some n \<Rightarrow> TNum n # acc)"

fun tokens :: "string \<Rightarrow> nat option \<Rightarrow> token list \<Rightarrow> token list option" where
  "tokens [] cur acc = Some (rev (push cur acc))"
| "tokens (c # cs) cur acc =
     (if is_digit c
      then (case cur of
              None \<Rightarrow> tokens cs (Some (digit_value c)) acc
            | Some n \<Rightarrow> if n = 0 then None else tokens cs (Some (10 * n + digit_value c)) acc)
      else if c = CHR '' '' then tokens cs None (push cur acc)
      else if c = CHR ''+'' \<or> c = CHR ''-'' \<or> c = CHR ''*''
      then tokens cs None (TOp c # push cur acc)
      else None)"

fun operands :: "token list \<Rightarrow> (char \<times> int) list option" where
  "operands [] = Some []"
| "operands (TOp c # TNum n # rest) =
     (case operands rest of None \<Rightarrow> None | Some ops \<Rightarrow> Some ((c, int n) # ops))"
| "operands ts = None"

text \<open>\<open>calc acc cur ops\<close>: the sum so far, the product being built, what is left.\<close>

fun calc :: "int \<Rightarrow> int \<Rightarrow> (char \<times> int) list \<Rightarrow> int" where
  "calc acc cur [] = acc + cur"
| "calc acc cur ((c, n) # rest) =
     (if c = CHR ''*'' then calc acc (cur * n) rest
      else if c = CHR ''+'' then calc (acc + cur) n rest
      else calc (acc + cur) (- n) rest)"

fun evaluate :: "token list \<Rightarrow> int option" where
  "evaluate (TNum n # rest) =
     (case operands rest of None \<Rightarrow> None | Some ops \<Rightarrow> Some (calc 0 (int n) ops))"
| "evaluate ts = None"

fun ends_with_operator :: "token list \<Rightarrow> bool" where
  "ends_with_operator [] = False"
| "ends_with_operator [TOp c] = True"
| "ends_with_operator [TNum n] = False"
| "ends_with_operator (t # ts) = ends_with_operator ts"

definition show_int :: "int \<Rightarrow> string" where
  "show_int i = (if i < 0 then ''-'' @ show_nat (nat (- i)) else show_nat (nat i))"

definition arith :: "string \<Rightarrow> string outcome option" where
  "arith s =
     (if 1000 < length s then None
      else (case tokens s None [] of
              None \<Rightarrow> None
            | Some ts \<Rightarrow>
                (case evaluate ts of
                   Some v \<Rightarrow> Some (Returned (show_int v))
                 | None \<Rightarrow> if ends_with_operator ts then Some (Raised SyntaxError) else None)))"

text \<open>
  \<^verbatim>\<open>eval\<close> as \<^verbatim>\<open>cmd_calculate\<close> calls it. The ghost fields \<open>tick\<close> and \<open>trace\<close> are not
  attributes of the Python object, so no expression can reach them.
\<close>

definition py_eval :: "host \<Rightarrow> string \<Rightarrow> bot \<Rightarrow> string completion \<times> bot" where
  "py_eval H s st =
     (case arith s of
        Some r \<Rightarrow> (completed r, st)
      | None \<Rightarrow>
          (let (r, st1) = host_eval H st s
           in (r, st1\<lparr>tick := tick st, trace := trace st\<rparr>)))"

definition py_lower :: "host \<Rightarrow> string \<Rightarrow> string" where
  "py_lower H s = (if is_ascii s then map ascii_lower s else unicode_lower H s)"

definition py_strip :: "host \<Rightarrow> string \<Rightarrow> string" where
  "py_strip H s = (if is_ascii s then ascii_strip s else unicode_strip H s)"

definition py_format :: "host \<Rightarrow> json \<Rightarrow> string" where
  "py_format H j = (case j of JStr s \<Rightarrow> s | _ \<Rightarrow> render H j)"

section \<open>Constants and the primitive actions\<close>

definition BASE_URL :: string where
  "BASE_URL = ''http://localhost:6167''"

definition BOT_USERNAME :: string where
  "BOT_USERNAME = ''demo_ai_bot''"

definition BOT_PASSWORD :: string where
  "BOT_PASSWORD = ''AIBotDemo123!''"

definition BOT_DISPLAY_NAME :: string where
  "BOT_DISPLAY_NAME = ''Demo AI Assistant '' @ [CHR 0xF0, CHR 0x9F, CHR 0xA4, CHR 0x96]"

definition emit :: "action \<Rightarrow> bot \<Rightarrow> bot" where
  "emit a st = st\<lparr>trace := trace st @ [a]\<rparr>"

definition logger :: "level \<Rightarrow> string \<Rightarrow> bot \<Rightarrow> bot" where
  "logger l m st = emit (Log l m) st"

definition sleep :: "nat \<Rightarrow> bot \<Rightarrow> bot" where
  "sleep ms st = emit (Sleep ms) st"

definition next_tick :: "bot \<Rightarrow> bot" where
  "next_tick st = st\<lparr>tick := Suc (tick st)\<rparr>"

definition http_call :: "host \<Rightarrow> request \<Rightarrow> bot \<Rightarrow> http_outcome \<times> bot" where
  "http_call H req st = (http H (tick st), next_tick (emit (Http req) st))"

definition random_choice :: "host \<Rightarrow> 'a list \<Rightarrow> bot \<Rightarrow> 'a \<times> bot" where
  "random_choice H xs st = (xs ! (choice H (tick st) mod length xs), next_tick st)"

definition bearer :: "host \<Rightarrow> bot \<Rightarrow> (string \<times> string) list" where
  "bearer H st = [(''Authorization'', ''Bearer '' @ py_format H (access_token st))]"

subsection \<open>\<^verbatim>\<open>send_message\<close>\<close>

definition message_request :: "host \<Rightarrow> json \<Rightarrow> string \<Rightarrow> string \<Rightarrow> bot \<Rightarrow> request" where
  "message_request H room_id message tx_id st =
     \<lparr>req_method = PUT,
      url = BASE_URL @ ''/_matrix/client/r0/rooms/'' @ py_format H room_id
            @ ''/send/m.room.message/'' @ tx_id,
      headers = bearer H st, params = [],
      body = Some (JObj [(''msgtype'', JStr ''m.text''), (''body'', JStr message)]),
      timeout = None\<rparr>"

definition send_message :: "host \<Rightarrow> json \<Rightarrow> string \<Rightarrow> bot \<Rightarrow> bool \<times> bot" where
  "send_message H room_id message st =
     (let tx_id = ''bot_'' @ show_nat (clock_ms H (tick st));
          st1 = next_tick st;
          (r, st2) = http_call H (message_request H room_id message tx_id st1) st1
      in case r of
           Failed e \<Rightarrow> (False, logger ERROR ''Message send error'' st2)
         | Response status decoded \<Rightarrow>
             if status = 200
             then (True, logger DEBUG ''Message sent''
                           (st2\<lparr>messages_sent := messages_sent st2 + 1\<rparr>))
             else (case decoded of
                     Raised e \<Rightarrow> (False, logger ERROR ''Message send error'' st2)
                   | Returned data \<Rightarrow> (False, logger ERROR ''Message send failed'' st2)))"

subsection \<open>The command handlers\<close>

definition bullet :: string where
  "bullet = [CHR 0xE2, CHR 0x80, CHR 0xA2]"

definition check_mark :: string where
  "check_mark = [CHR 0xE2, CHR 0x9C, CHR 0x85]"

definition robot :: string where
  "robot = [CHR 0xF0, CHR 0x9F, CHR 0xA4, CHR 0x96]"

definition newline :: string where
  "newline = [CHR 0x0A]"

definition help_text :: string where
  "help_text =
     robot @ '' **AI Bot Commands**'' @ newline @ newline
     @ ''**Basic Commands:**'' @ newline
     @ bullet @ '' !help - Show this help message'' @ newline
     @ bullet @ '' !ping - Test bot responsiveness  '' @ newline
     @ bullet @ '' !time - Show current server time'' @ newline
     @ bullet @ '' !status - Display bot status'' @ newline @ newline
     @ ''**Utility Commands:**'' @ newline
     @ bullet @ '' !calc <expression> - Simple calculator'' @ newline
     @ bullet @ '' !weather <city> - Weather information (demo)'' @ newline
     @ bullet @ '' !joke - Tell a random joke'' @ newline
     @ bullet @ '' !quote - Inspirational quote'' @ newline @ newline
     @ ''**Information Commands:**'' @ newline
     @ bullet @ '' !rooms - List bot'' @ [CHR 0x27] @ ''s rooms'' @ newline
     @ bullet @ '' !stats - Show bot statistics'' @ newline @ newline
     @ ''**Chat naturally with me for AI responses!** ''
     @ [CHR 0xF0, CHR 0x9F, CHR 0x92, CHR 0xAC] @ newline"

definition cmd_help :: "host \<Rightarrow> string \<Rightarrow> json \<Rightarrow> bot \<Rightarrow> string completion \<times> bot" where
  "cmd_help H args sender st = (Done help_text, st)"

definition cmd_time :: "host \<Rightarrow> string \<Rightarrow> json \<Rightarrow> bot \<Rightarrow> string completion \<times> bot" where
  "cmd_time H args sender st =
     (Done ([CHR 0xF0, CHR 0x9F, CHR 0x95, CHR 0x90] @ '' Current server time: ''
                @ now_text H (tick st)),
      next_tick st)"

definition cmd_status :: "host \<Rightarrow> string \<Rightarrow> json \<Rightarrow> bot \<Rightarrow> string completion \<times> bot" where
  "cmd_status H args sender st =
     (Done
        (robot @ '' **AI Bot Status**'' @ newline @ newline
         @ ''**System Information:**'' @ newline
         @ bullet @ '' Status: Online and ready! '' @ check_mark @ newline
         @ bullet @ '' Uptime: '' @ uptime_hours_text H (tick st) @ '' hours'' @ newline
         @ bullet @ '' PostgreSQL Backend: Connected '' @ check_mark @ newline
         @ bullet @ '' Matrix Server: matrixon (localhost:6167)'' @ newline @ newline
         @ ''**Statistics:**'' @ newline
         @ bullet @ '' Messages sent: '' @ show_nat (messages_sent st) @ newline
         @ bullet @ '' Commands processed: '' @ show_nat (commands_processed st) @ newline
         @ bullet @ '' Rooms joined: '' @ show_nat (rooms_joined st) @ newline @ newline
         @ ''**Performance:**'' @ newline
         @ bullet @ '' Response time: <100ms '' @ [CHR 0xE2, CHR 0x9A, CHR 0xA1] @ newline
         @ bullet @ '' Database queries: Optimized ''
         @ [CHR 0xF0, CHR 0x9F, CHR 0x93, CHR 0x8A] @ newline
         @ bullet @ '' Memory usage: Efficient ''
         @ [CHR 0xF0, CHR 0x9F, CHR 0x92, CHR 0xBE] @ newline),
      next_tick st)"

definition cmd_ping :: "host \<Rightarrow> string \<Rightarrow> json \<Rightarrow> bot \<Rightarrow> string completion \<times> bot" where
  "cmd_ping H args sender st =
     (Done ([CHR 0xF0, CHR 0x9F, CHR 0x8F, CHR 0x93]
                @ '' Pong! Bot is responsive and ready, '' @ py_format H sender @ ''!''),
      st)"

text \<open>
  \<^verbatim>\<open>cmd_rooms\<close> walks the room table. \<^verbatim>\<open>room_id[:20]\<close> needs a str: the key stored by
  \<^verbatim>\<open>create_demo_room\<close> is whatever the server sent as \<^verbatim>\<open>room_id\<close>, and a key that is
  a number, a bool or \<^verbatim>\<open>None\<close> raises here.
\<close>

fun room_lines :: "host \<Rightarrow> (json \<times> json) list \<Rightarrow> string \<Rightarrow> string outcome" where
  "room_lines H [] room_list = Returned room_list"
| "room_lines H ((room_id, room_info) # rest) room_list =
     (case py_get room_info ''name'' (JStr ''Unknown Room'') of
        Raised e \<Rightarrow> Raised e
      | Returned nm \<Rightarrow>
          (case room_id of
             JStr s \<Rightarrow>
               room_lines H rest
                 (room_list @ bullet @ '' '' @ py_format H nm @ newline
                  @ ''  ID: '' @ take_chars 20 s @ ''...'' @ newline @ newline)
           | _ \<Rightarrow> Raised TypeError))"

definition cmd_rooms :: "host \<Rightarrow> string \<Rightarrow> json \<Rightarrow> bot \<Rightarrow> string completion \<times> bot" where
  "cmd_rooms H args sender st =
     (if rooms st = []
      then (Done ([CHR 0xF0, CHR 0x9F, CHR 0x93, CHR 0x8B] @ '' I'' @ [CHR 0x27]
                      @ ''m not in any rooms yet (or haven'' @ [CHR 0x27]
                      @ ''t synced recently).''), st)
      else (completed
              (room_lines H (rooms st)
                 ([CHR 0xF0, CHR 0x9F, CHR 0x93, CHR 0x8B] @ '' **Rooms I'' @ [CHR 0x27]
                  @ ''m in:**'' @ newline @ newline)), st))"

definition cmd_stats :: "host \<Rightarrow> string \<Rightarrow> json \<Rightarrow> bot \<Rightarrow> string completion \<times> bot" where
  "cmd_stats H args sender st =
     (Done
        ([CHR 0xF0, CHR 0x9F, CHR 0x93, CHR 0x8A] @ '' **Detailed Bot Statistics**''
         @ newline @ newline
         @ ''**Activity Metrics:**'' @ newline
         @ bullet @ '' Total messages sent: '' @ show_nat (messages_sent st) @ newline
         @ bullet @ '' Commands processed: '' @ show_nat (commands_processed st) @ newline
         @ bullet @ '' Average response time: <100ms'' @ newline
         @ bullet @ '' Success rate: >99%'' @ newline @ newline
         @ ''**System Metrics:**'' @ newline
         @ bullet @ '' Uptime: '' @ uptime_seconds_text H (tick st) @ '' seconds'' @ newline
         @ bullet @ '' Memory efficiency: Excellent'' @ newline
         @ bullet @ '' Database performance: Optimal'' @ newline
         @ bullet @ '' Error rate: <0.1%'' @ newline @ newline
         @ ''**Platform Integration:**'' @ newline
         @ bullet @ '' Matrix Protocol: v1.12 '' @ check_mark @ newline
         @ bullet @ '' matrixon Server: Compatible '' @ check_mark @ newline
         @ bullet @ '' PostgreSQL: Connected '' @ check_mark @ newline
         @ bullet @ '' Real-time sync: Active '' @ [CHR 0xE2, CHR 0x9A, CHR 0xA1] @ newline),
      next_tick st)"

definition jokes :: "string list" where
  "jokes =
     [''Why don'' @ [CHR 0x27]
        @ ''t scientists trust atoms? Because they make up everything! ''
        @ [CHR 0xF0, CHR 0x9F, CHR 0x98, CHR 0x84],
      ''Why did the robot go to therapy? It had too many bits and bytes! '' @ robot,
      ''What do you call a Matrix server that tells jokes? matrixon Comedy Club! ''
        @ [CHR 0xF0, CHR 0x9F, CHR 0x98, CHR 0x82],
      ''Why don'' @ [CHR 0x27] @ ''t databases ever get lonely? They'' @ [CHR 0x27]
        @ ''re always in relationships! '' @ [CHR 0xF0, CHR 0x9F, CHR 0x92, CHR 0xBE],
      ''What'' @ [CHR 0x27] @ ''s a bot'' @ [CHR 0x27]
        @ ''s favorite type of music? Algo-rhythms! ''
        @ [CHR 0xF0, CHR 0x9F, CHR 0x8E, CHR 0xB5]]"

definition cmd_joke :: "host \<Rightarrow> string \<Rightarrow> json \<Rightarrow> bot \<Rightarrow> string completion \<times> bot" where
  "cmd_joke H args sender st =
     (let (joke, st1) = random_choice H jokes st in (Done joke, st1))"

definition cmd_weather :: "host \<Rightarrow> string \<Rightarrow> json \<Rightarrow> bot \<Rightarrow> string completion \<times> bot" where
  "cmd_weather H args sender st =
     (let city = (if args \<noteq> [] then py_strip H args else ''your city'')
      in (Done ([CHR 0xF0, CHR 0x9F, CHR 0x8C, CHR 0xA4, CHR 0xEF, CHR 0xB8, CHR 0x8F]
                    @ '' Weather in '' @ city @ '': 22'' @ [CHR 0xC2, CHR 0xB0]
                    @ ''C, Partly cloudy'' @ newline
                    @ ''(This is a demo response - integrate with real weather API ''
                    @ ''for production!)''), st))"

text \<open>
  \<^verbatim>\<open>cmd_calculate\<close>: the bare \<^verbatim>\<open>except:\<close> around \<^verbatim>\<open>eval\<close> and the formatting of the
  result catches every exception, so the handler has no raising branch. It does not
  undo what the evaluation did to the bot object before it raised, and it has no hold
  on an evaluation that does not return.
\<close>

definition calc_usage :: string where
  "calc_usage =
     [CHR 0xF0, CHR 0x9F, CHR 0xA7, CHR 0xAE] @ '' Usage: !calc <expression>'' @ newline
     @ ''Example: !calc 2 + 2''"

definition calc_result :: "string \<Rightarrow> string \<Rightarrow> string" where
  "calc_result args result =
     [CHR 0xF0, CHR 0x9F, CHR 0xA7, CHR 0xAE] @ '' '' @ args @ '' = '' @ result"

definition calc_invalid :: "string \<Rightarrow> string" where
  "calc_invalid args =
     [CHR 0xE2, CHR 0x9D, CHR 0x8C] @ '' Invalid expression: '' @ args @ newline
     @ ''Try something like: 2 + 2 or 10 * 5''"

definition cmd_calculate :: "host \<Rightarrow> string \<Rightarrow> json \<Rightarrow> bot \<Rightarrow> string completion \<times> bot" where
  "cmd_calculate H args sender st =
     (if args = [] then (Done calc_usage, st)
      else (case py_eval H (replace_caret args) st of
              (Done result, st1) \<Rightarrow> (Done (calc_result args result), st1)
            | (Thrown e, st1) \<Rightarrow> (Done (calc_invalid args), st1)
            | (Never_returns, st1) \<Rightarrow> (Never_returns, st1)))"

definition quotes :: "string list" where
  "quotes =
     [[CHR 0x22] @ ''The future belongs to those who believe in the beauty of their dreams.''
        @ [CHR 0x22] @ '' - Eleanor Roosevelt'',
      [CHR 0x22] @ ''Innovation distinguishes between a leader and a follower.''
        @ [CHR 0x22] @ '' - Steve Jobs'',
      [CHR 0x22] @ ''The only way to do great work is to love what you do.''
        @ [CHR 0x22] @ '' - Steve Jobs'',
      [CHR 0x22] @ ''Technology is best when it brings people together.''
        @ [CHR 0x22] @ '' - Matt Mullenweg'',
      [CHR 0x22] @ ''The advance of technology is based on making it fit in so that you don''
        @ [CHR 0x27] @ ''t really even notice it.'' @ [CHR 0x22] @ '' - Bill Gates'']"

definition cmd_quote :: "host \<Rightarrow> string \<Rightarrow> json \<Rightarrow> bot \<Rightarrow> string completion \<times> bot" where
  "cmd_quote H args sender st =
     (let (quote, st1) = random_choice H quotes st
      in (Done ([CHR 0xF0, CHR 0x9F, CHR 0x92, CHR 0xAD] @ '' '' @ quote), st1))"

text \<open>The registry \<^verbatim>\<open>self.commands\<close>: ten tokens, each bound to its handler.\<close>

definition commands ::
  "(string \<times> (host \<Rightarrow> string \<Rightarrow> json \<Rightarrow> bot \<Rightarrow> string completion \<times> bot)) list" where
  "commands =
     [(''!help'', cmd_help),
      (''!time'', cmd_time),
      (''!status'', cmd_status),
      (''!ping'', cmd_ping),
      (''!rooms'', cmd_rooms),
      (''!stats'', cmd_stats),
      (''!joke'', cmd_joke),
      (''!weather'', cmd_weather),
      (''!calc'', cmd_calculate),
      (''!quote'', cmd_quote)]"

subsection \<open>\<^verbatim>\<open>handle_command\<close>\<close>

definition unknown_command :: "string \<Rightarrow> string" where
  "unknown_command cmd =
     [CHR 0xF0, CHR 0x9F, CHR 0xA4, CHR 0x94] @ '' Unknown command: '' @ cmd @ newline
     @ ''Type !help for available commands.''"

definition handle_command ::
  "host \<Rightarrow> string \<Rightarrow> string \<Rightarrow> json \<Rightarrow> bot \<Rightarrow> unit completion \<times> bot" where
  "handle_command H room_id command sender st0 =
     (let st = emit (Dispatch room_id command sender) st0;
          cmd_parts = split_once command;
          cmd = py_lower H (fst cmd_parts);
          args = (case snd cmd_parts of Some rest \<Rightarrow> rest | None \<Rightarrow> [])
      in case map_of commands cmd of
           Some handler \<Rightarrow>
             (let st1 = st\<lparr>commands_processed := commands_processed st + 1\<rparr>;
                  (r, st2) = handler H args sender st1
              in case r of
                   Thrown e \<Rightarrow> (Thrown e, st2)
                 | Never_returns \<Rightarrow> (Never_returns, st2)
                 | Done response \<Rightarrow>
                     (let (sent, st3) = send_message H (JStr room_id) response st2
                      in (Done (), st3)))
         | None \<Rightarrow>
             (let response = unknown_command cmd;
                  (sent, st1) = send_message H (JStr room_id) response st
              in (Done (), st1)))"

subsection \<open>\<^verbatim>\<open>handle_ai_response\<close>\<close>

definition ai_responses :: "string list" where
  "ai_responses =
     [''That'' @ [CHR 0x27] @ ''s an interesting question! Let me think about that...'',
      ''I understand what you'' @ [CHR 0x27] @ ''re asking. Here'' @ [CHR 0x27]
        @ ''s my perspective:'',
      ''Based on my knowledge, I would say:'',
      ''That'' @ [CHR 0x27] @ ''s a great point! My response would be:'',
      ''I'' @ [CHR 0x27] @ ''m processing that information. Here'' @ [CHR 0x27]
        @ ''s what I think:'']"

definition greeting_replies :: "host \<Rightarrow> json \<Rightarrow> string list" where
  "greeting_replies H sender =
     [''Hello '' @ py_format H sender @ ''! '' @ [CHR 0xF0, CHR 0x9F, CHR 0x91, CHR 0x8B]
        @ '' How can I assist you today?'',
      ''Hi there '' @ py_format H sender @ ''! I'' @ [CHR 0x27]
        @ ''m your AI assistant. What can I help you with?'',
      ''Greetings '' @ py_format H sender @ ''! Ready to chat and help with your questions!'']"

definition wellbeing_replies :: "string list" where
  "wellbeing_replies =
     [''I'' @ [CHR 0x27] @ ''m doing great! My PostgreSQL database is running smoothly and I''
        @ [CHR 0x27] @ ''m ready to help! '' @ robot,
      ''Excellent! All systems are green and I'' @ [CHR 0x27]
        @ ''m processing messages efficiently! '' @ [CHR 0xE2, CHR 0x9A, CHR 0xA1],
      ''I'' @ [CHR 0x27] @ ''m fantastic! Thanks for asking. How are you doing today?'']"

definition gratitude_replies :: "string list" where
  "gratitude_replies =
     [''You'' @ [CHR 0x27] @ ''re very welcome! Happy to help! ''
        @ [CHR 0xF0, CHR 0x9F, CHR 0x98, CHR 0x8A],
      ''No problem at all! That'' @ [CHR 0x27] @ ''s what I'' @ [CHR 0x27]
        @ ''m here for! '' @ robot,
      ''Glad I could assist! Feel free to ask anything else!'']"

definition generic_replies :: "host \<Rightarrow> string \<Rightarrow> json \<Rightarrow> string \<Rightarrow> string list" where
  "generic_replies H message sender pick =
     [''That'' @ [CHR 0x27] @ ''s interesting, '' @ py_format H sender @ ''! '' @ pick,
      ''I understand your message about '' @ [CHR 0x27] @ take_chars 30 message @ ''...''
        @ [CHR 0x27] @ '' Let me process that...'',
      ''Thanks for sharing that with me, '' @ py_format H sender @ ''! Here'' @ [CHR 0x27]
        @ ''s my thought on it...'']"

definition handle_ai_response ::
  "host \<Rightarrow> string \<Rightarrow> string \<Rightarrow> json \<Rightarrow> bot \<Rightarrow> unit completion \<times> bot" where
  "handle_ai_response H room_id message sender st0 =
     (let st = sleep 1000 (emit (Respond room_id message sender) st0);
          lowered = py_lower H message;
          (responses, st1) =
            (if contains ''hello'' lowered \<or> contains ''hi'' lowered
             then (greeting_replies H sender, st)
             else if contains ''how are you'' lowered then (wellbeing_replies, st)
             else if contains ''thank'' lowered then (gratitude_replies, st)
             else (let (pick, st') = random_choice H ai_responses st
                   in (generic_replies H message sender pick, st')));
          (response, st2) = random_choice H responses st1;
          (sent, st3) = send_message H (JStr room_id) response st2
      in (Done (), st3))"

subsection \<open>\<^verbatim>\<open>handle_message_event\<close> and \<^verbatim>\<open>process_events\<close>\<close>

text \<open>
  The body is sliced for the log line and then asked \<^verbatim>\<open>startswith\<close>: a str passes
  both, a list is sliced and logged but has no \<^verbatim>\<open>startswith\<close>, any other value cannot
  be sliced.
\<close>

definition handle_message_event ::
  "host \<Rightarrow> string \<Rightarrow> json \<Rightarrow> bot \<Rightarrow> unit completion \<times> bot" where
  "handle_message_event H room_id event st =
     (case py_get event ''sender'' (JStr []) of
        Raised e \<Rightarrow> (Thrown e, st)
      | Returned sender \<Rightarrow>
     (case py_get event ''content'' (JObj []) of
        Raised e \<Rightarrow> (Thrown e, st)
      | Returned content \<Rightarrow>
     (case py_get content ''body'' (JStr []) of
        Raised e \<Rightarrow> (Thrown e, st)
      | Returned message_body \<Rightarrow>
          if py_eq sender (user_id st) then (Done (), st)
          else (case message_body of
                  JStr text \<Rightarrow>
                    (let st1 = logger INFO ''Received message'' st
                     in if starts_with ''!'' text
                        then handle_command H room_id text sender st1
                        else handle_ai_response H room_id text sender st1)
                | JArr xs \<Rightarrow> (Thrown AttributeError, logger INFO ''Received message'' st)
                | _ \<Rightarrow> (Thrown TypeError, st)))))"

fun handle_events :: "host \<Rightarrow> string \<Rightarrow> json list \<Rightarrow> bot \<Rightarrow> unit completion \<times> bot" where
  "handle_events H room_id [] st = (Done (), st)"
| "handle_events H room_id (event # rest) st =
     (case py_get event ''type'' JNull of
        Raised e \<Rightarrow> (Thrown e, st)
      | Returned kind \<Rightarrow>
          if py_eq kind (JStr ''m.room.message'')
          then (case handle_message_event H room_id event st of
                  (Done u, st1) \<Rightarrow> handle_events H room_id rest st1
                | (Thrown e, st1) \<Rightarrow> (Thrown e, st1)
                | (Never_returns, st1) \<Rightarrow> (Never_returns, st1))
          else handle_events H room_id rest st)"

fun handle_rooms :: "host \<Rightarrow> (string \<times> json) list \<Rightarrow> bot \<Rightarrow> unit completion \<times> bot" where
  "handle_rooms H [] st = (Done (), st)"
| "handle_rooms H ((room_id, room_data) # rest) st =
     (case py_get room_data ''timeline'' (JObj []) of
        Raised e \<Rightarrow> (Thrown e, st)
      | Returned timeline \<Rightarrow>
     (case py_get timeline ''events'' (JArr []) of
        Raised e \<Rightarrow> (Thrown e, st)
      | Returned events \<Rightarrow>
     (case py_iter events of
        Raised e \<Rightarrow> (Thrown e, st)
      | Returned evs \<Rightarrow>
          (case handle_events H room_id evs st of
             (Done u, st1) \<Rightarrow> handle_rooms H rest st1
           | (Thrown e, st1) \<Rightarrow> (Thrown e, st1)
           | (Never_returns, st1) \<Rightarrow> (Never_returns, st1)))))"

definition process_events :: "host \<Rightarrow> json \<Rightarrow> bot \<Rightarrow> unit completion \<times> bot" where
  "process_events H sync_data st =
     (case py_get sync_data ''rooms'' (JObj []) of
        Raised e \<Rightarrow> (Thrown e, st)
      | Returned rooms_part \<Rightarrow>
     (case py_get rooms_part ''join'' (JObj []) of
        Raised e \<Rightarrow> (Thrown e, st)
      | Returned joined_rooms \<Rightarrow>
          (case joined_rooms of
             JObj d \<Rightarrow> handle_rooms H d st
           | _ \<Rightarrow> (Thrown AttributeError, st))))"

subsection \<open>\<^verbatim>\<open>sync_events\<close>\<close>

definition sync_params :: "bot \<Rightarrow> (string \<times> json) list" where
  "sync_params st =
     [(''timeout'', JNum 10000)]
     @ (if py_truthy (sync_token st) then [(''since'', sync_token st)] else [])"

definition sync_request :: "host \<Rightarrow> bot \<Rightarrow> request" where
  "sync_request H st =
     \<lparr>req_method = GET, url = BASE_URL @ ''/_matrix/client/r0/sync'',
      headers = bearer H st, params = sync_params st, body = None, timeout = Some 15\<rparr>"

text \<open>The two \<^verbatim>\<open>except\<close> clauses of \<^verbatim>\<open>sync_events\<close>: both return the empty dict.\<close>

definition sync_except :: "exn \<Rightarrow> bot \<Rightarrow> json \<times> bot" where
  "sync_except e st =
     (if e = TimeoutError then (JObj [], logger DEBUG ''Sync timeout (normal)'' st)
      else (JObj [], logger ERROR ''Sync error'' st))"

definition sync_events :: "host \<Rightarrow> bot \<Rightarrow> json \<times> bot" where
  "sync_events H st =
     (let (r, st1) = http_call H (sync_request H st) st
      in case r of
           Failed e \<Rightarrow> sync_except e st1
         | Response status decoded \<Rightarrow>
             if status = 200
             then (case decoded of
                     Raised e \<Rightarrow> sync_except e st1
                   | Returned data \<Rightarrow>
                       (case subscript data ''next_batch'' of
                          Raised e \<Rightarrow> sync_except e st1
                        | Returned cursor \<Rightarrow> (data, st1\<lparr>sync_token := cursor\<rparr>)))
             else (JObj [], logger ERROR ''Sync failed'' st1))"

subsection \<open>Session establishment: \<^verbatim>\<open>register_bot\<close>, \<^verbatim>\<open>login_bot\<close>, \<^verbatim>\<open>setup_profile\<close>\<close>

text \<open>
  The three assignments made on a 200 reply, in the source's order; a missing key
  raises after the earlier fields have been written.
\<close>

definition store_session :: "json \<Rightarrow> bot \<Rightarrow> unit outcome \<times> bot" where
  "store_session data st =
     (case subscript data ''access_token'' of
        Raised e \<Rightarrow> (Raised e, st)
      | Returned tok \<Rightarrow>
          (let st1 = st\<lparr>access_token := tok\<rparr>
           in case subscript data ''user_id'' of
                Raised e \<Rightarrow> (Raised e, st1)
              | Returned uid \<Rightarrow>
                  (let st2 = st1\<lparr>user_id := uid\<rparr>
                   in case py_get data ''device_id'' JNull of
                        Raised e \<Rightarrow> (Raised e, st2)
                      | Returned dev \<Rightarrow> (Returned (), st2\<lparr>device_id := dev\<rparr>))))"

definition login_request :: request where
  "login_request =
     \<lparr>req_method = POST, url = BASE_URL @ ''/_matrix/client/r0/login'',
      headers = [], params = [],
      body = Some (JObj [(''type'', JStr ''m.login.password''),
                         (''user'', JStr BOT_USERNAME),
                         (''password'', JStr BOT_PASSWORD)]),
      timeout = None\<rparr>"

definition login_bot :: "host \<Rightarrow> bot \<Rightarrow> bool \<times> bot" where
  "login_bot H st =
     (let (r, st1) = http_call H login_request st
      in case r of
           Failed e \<Rightarrow> (False, logger ERROR ''Login error'' st1)
         | Response status decoded \<Rightarrow>
             (case decoded of
                Raised e \<Rightarrow> (False, logger ERROR ''Login error'' st1)
              | Returned data \<Rightarrow>
                  if status = 200
                  then (case store_session data st1 of
                          (Raised e, st2) \<Rightarrow> (False, logger ERROR ''Login error'' st2)
                        | (Returned u, st2) \<Rightarrow>
                            (True, logger INFO ''Bot logged in successfully'' st2))
                  else (False, logger ERROR ''Login failed'' st1)))"

definition register_request :: request where
  "register_request =
     \<lparr>req_method = POST, url = BASE_URL @ ''/_matrix/client/r0/register'',
      headers = [], params = [],
      body = Some (JObj [(''username'', JStr BOT_USERNAME),
                         (''password'', JStr BOT_PASSWORD),
                         (''auth'', JObj [(''type'', JStr ''m.login.dummy'')])]),
      timeout = None\<rparr>"

definition register_bot :: "host \<Rightarrow> bot \<Rightarrow> bool \<times> bot" where
  "register_bot H st =
     (let (r, st1) = http_call H register_request st
      in case r of
           Failed e \<Rightarrow> (False, logger ERROR ''Registration error'' st1)
         | Response status decoded \<Rightarrow>
             (case decoded of
                Raised e \<Rightarrow> (False, logger ERROR ''Registration error'' st1)
              | Returned data \<Rightarrow>
                  if status = 200
                  then (case store_session data st1 of
                          (Raised e, st2) \<Rightarrow> (False, logger ERROR ''Registration error'' st2)
                        | (Returned u, st2) \<Rightarrow>
                            (True, logger INFO ''Bot registered successfully'' st2))
                  else (case py_get data ''errcode'' (JStr ''UNKNOWN'') of
                          Raised e \<Rightarrow> (False, logger ERROR ''Registration error'' st1)
                        | Returned error_code \<Rightarrow>
                            if py_eq error_code (JStr ''M_USER_IN_USE'')
                            then login_bot H
                                   (logger INFO ''Bot user already exists, attempting login...'' st1)
                            else (False, logger ERROR ''Registration failed'' st1))))"

definition profile_request :: "host \<Rightarrow> bot \<Rightarrow> request" where
  "profile_request H st =
     \<lparr>req_method = PUT,
      url = BASE_URL @ ''/_matrix/client/r0/profile/'' @ py_format H (user_id st)
            @ ''/displayname'',
      headers = bearer H st, params = [],
      body = Some (JObj [(''displayname'', JStr BOT_DISPLAY_NAME)]),
      timeout = None\<rparr>"

definition setup_profile :: "host \<Rightarrow> bot \<Rightarrow> bool \<times> bot" where
  "setup_profile H st =
     (let (r, st1) = http_call H (profile_request H st) st
      in case r of
           Failed e \<Rightarrow> (False, logger ERROR ''Profile setup error'' st1)
         | Response status decoded \<Rightarrow>
             if status = 200 then (True, logger INFO ''Bot profile configured'' st1)
             else (case decoded of
                     Raised e \<Rightarrow> (False, logger ERROR ''Profile setup error'' st1)
                   | Returned data \<Rightarrow> (True, logger WARNING ''Profile setup warning'' st1)))"

subsection \<open>\<^verbatim>\<open>create_demo_room\<close>\<close>

text \<open>A list or a dict cannot be a dict key: \<^verbatim>\<open>self.rooms[room_id] = ...\<close> raises.\<close>

fun hashable :: "json \<Rightarrow> bool" where
  "hashable (JArr xs) = False"
| "hashable (JObj d) = False"
| "hashable j = True"

fun dict_set :: "(json \<times> json) list \<Rightarrow> json \<Rightarrow> json \<Rightarrow> (json \<times> json) list" where
  "dict_set [] k v = [(k, v)]"
| "dict_set ((k', v') # rest) k v =
     (if py_eq k' k then (k', v) # rest else (k', v') # dict_set rest k v)"

definition room_request :: "host \<Rightarrow> bot \<Rightarrow> request" where
  "room_request H st =
     \<lparr>req_method = POST, url = BASE_URL @ ''/_matrix/client/r0/createRoom'',
      headers = bearer H st, params = [],
      body = Some (JObj [(''name'', JStr ''AI Bot Demo Room''),
                         (''topic'', JStr (robot @ '' Chat with the Demo AI Assistant Bot'')),
                         (''preset'', JStr ''public_chat'')]),
      timeout = None\<rparr>"

definition welcome_text :: string where
  "welcome_text =
     robot @ '' Hello! I'' @ [CHR 0x27] @ ''m your Demo AI Assistant Bot!'' @ newline @ newline
     @ ''I'' @ [CHR 0x27] @ ''m running on matrixon Matrix Server with PostgreSQL backend.''
     @ newline @ newline
     @ ''Type !help to see available commands, or just chat with me naturally!''"

text \<open>
  The value returned is the room id, or \<^verbatim>\<open>None\<close>. The entry stored in the room table
  keeps the clock reading in milliseconds under \<^verbatim>\<open>created\<close>.
\<close>

definition create_demo_room :: "host \<Rightarrow> bot \<Rightarrow> json \<times> bot" where
  "create_demo_room H st =
     (let (r, st1) = http_call H (room_request H st) st
      in case r of
           Failed e \<Rightarrow> (JNull, logger ERROR ''Room creation error'' st1)
         | Response status decoded \<Rightarrow>
             (case decoded of
                Raised e \<Rightarrow> (JNull, logger ERROR ''Room creation error'' st1)
              | Returned data \<Rightarrow>
                  if status = 200
                  then (case subscript data ''room_id'' of
                          Raised e \<Rightarrow> (JNull, logger ERROR ''Room creation error'' st1)
                        | Returned room_id \<Rightarrow>
                            (let info = JObj [(''name'', JStr ''AI Bot Demo Room''),
                                              (''members'', JNum 1),
                                              (''created'', JNum (int (clock_ms H (tick st1))))];
                                 st2 = next_tick st1
                             in if \<not> hashable room_id
                                then (JNull, logger ERROR ''Room creation error'' st2)
                                else (let st3 = st2\<lparr>rooms := dict_set (rooms st2) room_id info\<rparr>;
                                          st4 = st3\<lparr>rooms_joined := rooms_joined st3 + 1\<rparr>;
                                          st5 = logger INFO ''Demo room created'' st4;
                                          (sent, st6) = send_message H room_id welcome_text st5
                                      in (room_id, st6))))
                  else (JNull, logger ERROR ''Room creation failed'' st1)))"

subsection \<open>\<^verbatim>\<open>run\<close>\<close>

text \<open>
  One pass through the body of \<^verbatim>\<open>while self.running\<close>. An exception can reach the
  loop's own handler only from \<^verbatim>\<open>process_events\<close>: \<^verbatim>\<open>sync_events\<close> catches its own.
  The branch \<^verbatim>\<open>except KeyboardInterrupt\<close>, which clears the flag, is taken on an interrupt
  from outside only and has no counterpart here. When \<^verbatim>\<open>process_events\<close> does not
  return, the pass does not either: no delay follows and no later pass is made.
\<close>

definition loop_body :: "host \<Rightarrow> bot \<Rightarrow> unit completion \<times> bot" where
  "loop_body H st =
     (let (sync_data, st1) = sync_events H st
      in if py_truthy sync_data
         then (case process_events H sync_data st1 of
                 (Done u, st2) \<Rightarrow> (Done (), sleep 100 st2)
               | (Thrown e, st2) \<Rightarrow>
                   (Done (), sleep 5000 (logger ERROR ''Sync loop error'' st2))
               | (Never_returns, st2) \<Rightarrow> (Never_returns, st2))
         else (Done (), sleep 100 st1))"

text \<open>The bot as one pass leaves it, or as it is where the pass stops for good.\<close>

definition loop_iteration :: "host \<Rightarrow> bot \<Rightarrow> bot" where
  "loop_iteration H st = snd (loop_body H st)"

text \<open>
  The loop does not end by itself; \<open>sync_loop H n\<close> is its first \<open>n\<close> iterations, or
  fewer when one of them does not return.
\<close>

fun sync_loop :: "host \<Rightarrow> nat \<Rightarrow> bot \<Rightarrow> bot" where
  "sync_loop H 0 st = st"
| "sync_loop H (Suc n) st =
     (if running st
      then (case loop_body H st of
              (Done u, st1) \<Rightarrow> sync_loop H n st1
            | (_, st1) \<Rightarrow> st1)
      else st)"

text \<open>
  The part of \<^verbatim>\<open>run\<close> before the loop. The flag tells whether the loop is entered;
  the two early \<^verbatim>\<open>return\<close>s leave \<^verbatim>\<open>run\<close> with the flag \<open>False\<close>.
\<close>

definition startup :: "host \<Rightarrow> bot \<Rightarrow> bool \<times> bot" where
  "startup H st0 =
     (let st = logger INFO ''Starting AI Bot for matrixon Matrix Server...'' st0;
          (registered, st1) = register_bot H st
      in if \<not> registered then (False, logger ERROR ''Failed to register/login bot'' st1)
         else (let (configured, st2) = setup_profile H st1
               in if \<not> configured
                  then (False, logger ERROR ''Failed to setup bot profile'' st2)
                  else (let (demo_room, st3) = create_demo_room H st2;
                            st4 = (if py_truthy demo_room
                                   then logger INFO ''Demo room ready'' st3 else st3);
                            st5 = st4\<lparr>running := True\<rparr>
                        in (True, logger INFO ''Starting sync loop...'' st5))))"

definition run :: "host \<Rightarrow> nat \<Rightarrow> bot \<Rightarrow> bot" where
  "run H n st =
     (case startup H st of
        (False, st1) \<Rightarrow> st1
      | (True, st1) \<Rightarrow> sync_loop H n st1)"

section \<open>Notions used to state the properties\<close>

subsection \<open>What a run keeps fixed\<close>

text \<open>
  The credential, the identity, the device, the cursor, the room table and the loop flag.
  Sending and answering change the trace, the tick and the counters only; so does
  dispatching, unless the calculator evaluates an expression that rewrites the bot.
\<close>

definition session_of ::
  "bot \<Rightarrow> json \<times> json \<times> json \<times> json \<times> (json \<times> json) list \<times> bool" where
  "session_of st =
     (access_token st, user_id st, device_id st, sync_token st, rooms st, running st)"

subsection \<open>Evaluated expressions\<close>

text \<open>
  A host is \<open>effect_free\<close> when every call of \<^verbatim>\<open>eval\<close> returns or raises and leaves the
  bot object as it found it: no evaluated expression assigns to an attribute of the
  bot, runs forever or ends the process.
\<close>

definition effect_free :: "host \<Rightarrow> bool" where
  "effect_free H =
     (\<forall>st s. snd (host_eval H st s) = st \<and> fst (host_eval H st s) \<noteq> Never_returns)"

subsection \<open>Outcomes of a poll\<close>

text \<open>
  The cursor a poll outcome carries: that of a reply with status 200 whose body decodes
  to a dict with \<^verbatim>\<open>next_batch\<close>. A poll fails when its request raises, its status is
  not 200, its body does not decode or has no \<^verbatim>\<open>next_batch\<close>.
\<close>

definition returned_cursor :: "http_outcome \<Rightarrow> json option" where
  "returned_cursor r =
     (case r of
        Failed e \<Rightarrow> None
      | Response status decoded \<Rightarrow>
          if status = 200
          then (case decoded of
                  Raised e \<Rightarrow> None
                | Returned data \<Rightarrow>
                    (case subscript data ''next_batch'' of
                       Raised e \<Rightarrow> None
                     | Returned cursor \<Rightarrow> Some cursor))
          else None)"

definition poll_failed :: "http_outcome \<Rightarrow> bool" where
  "poll_failed r =
     (case r of
        Failed e \<Rightarrow> True
      | Response status decoded \<Rightarrow>
          status \<noteq> 200
          \<or> (case decoded of
                Raised e \<Rightarrow> True
              | Returned data \<Rightarrow>
                  (case subscript data ''next_batch'' of
                     Raised e \<Rightarrow> True
                   | Returned cursor \<Rightarrow> False)))"

subsection \<open>Outcomes of registration and login\<close>

text \<open>\<open>user_in_use\<close>: the reply that reports the identity as taken.\<close>

definition user_in_use :: "http_outcome \<Rightarrow> bool" where
  "user_in_use r =
     (case r of
        Failed e \<Rightarrow> False
      | Response status decoded \<Rightarrow>
          status \<noteq> 200
          \<and> (case decoded of
                Raised e \<Rightarrow> False
              | Returned data \<Rightarrow>
                  (case py_get data ''errcode'' (JStr ''UNKNOWN'') of
                     Raised e \<Rightarrow> False
                   | Returned error_code \<Rightarrow> py_eq error_code (JStr ''M_USER_IN_USE''))))"

text \<open>
  The credential, the identity and the device that a reply grants: those of a reply
  with status 200 whose body decodes to a dict with \<^verbatim>\<open>access_token\<close> and \<^verbatim>\<open>user_id\<close>;
  the device is \<^verbatim>\<open>None\<close> when the body names none.
\<close>

definition granted :: "http_outcome \<Rightarrow> (json \<times> json \<times> json) option" where
  "granted r =
     (case r of
        Failed e \<Rightarrow> None
      | Response status decoded \<Rightarrow>
          if status = 200
          then (case decoded of
                  Raised e \<Rightarrow> None
                | Returned data \<Rightarrow>
                    (case subscript data ''access_token'' of
                       Raised e \<Rightarrow> None
                     | Returned tok \<Rightarrow>
                         (case subscript data ''user_id'' of
                            Raised e \<Rightarrow> None
                          | Returned uid \<Rightarrow>
                              (case py_get data ''device_id'' JNull of
                                 Raised e \<Rightarrow> None
                               | Returned dev \<Rightarrow> Some (tok, uid, dev)))))
          else None)"

definition start_line :: string where
  "start_line = ''Starting AI Bot for matrixon Matrix Server...''"

subsection \<open>Commands\<close>

text \<open>
  The token and the arguments \<^verbatim>\<open>handle_command\<close> computes from a command text, the body
  of a text message, and room tables whose ids are strings and whose entries are dicts,
  as \<^verbatim>\<open>cmd_rooms\<close> needs them.
\<close>

definition command_token :: "host \<Rightarrow> string \<Rightarrow> string" where
  "command_token H command = py_lower H (fst (split_once command))"

definition command_args :: "string \<Rightarrow> string" where
  "command_args command = (case snd (split_once command) of Some rest \<Rightarrow> rest | None \<Rightarrow> [])"

text \<open>
  The bot as a handler finds it: the call of \<^verbatim>\<open>handle_command\<close> is on record and the
  counter of processed commands has been incremented.
\<close>

definition handler_entry :: "string \<Rightarrow> string \<Rightarrow> json \<Rightarrow> bot \<Rightarrow> bot" where
  "handler_entry room_id command sender st =
     (emit (Dispatch room_id command sender) st)
       \<lparr>commands_processed := commands_processed st + 1\<rparr>"


definition text_body :: "string \<Rightarrow> json option" where
  "text_body message = Some (JObj [(''msgtype'', JStr ''m.text''), (''body'', JStr message)])"

fun is_str :: "json \<Rightarrow> bool" where
  "is_str (JStr s) = True"
| "is_str j = False"

fun is_dict :: "json \<Rightarrow> bool" where
  "is_dict (JObj d) = True"
| "is_dict j = False"

definition wf_rooms :: "bot \<Rightarrow> bool" where
  "wf_rooms st =
     list_all (\<lambda>(room_id, room_info). is_str room_id \<and> is_dict room_info) (rooms st)"

subsection \<open>Hand-overs of the router\<close>

text \<open>
  The hand-overs recorded in the trace of a bot, as (room, text, sender), and those added
  between two states. \<open>routed\<close> is what one timeline entry contributes: nothing when
  the sender is the own identity or the body is not a str.
\<close>

fun handover :: "action \<Rightarrow> (string \<times> string \<times> json) list" where
  "handover (Dispatch room_id command sender) = [(room_id, command, sender)]"
| "handover (Respond room_id message sender) = [(room_id, message, sender)]"
| "handover a = []"

definition handovers :: "bot \<Rightarrow> (string \<times> string \<times> json) list" where
  "handovers st = concat (map handover (trace st))"

definition new_handovers :: "bot \<Rightarrow> bot \<Rightarrow> (string \<times> string \<times> json) list" where
  "new_handovers st st' = drop (length (handovers st)) (handovers st')"

definition routed :: "bot \<Rightarrow> string \<Rightarrow> json \<Rightarrow> (string \<times> string \<times> json) list" where
  "routed st room_id event =
     (case py_get event ''sender'' (JStr []) of
        Raised e \<Rightarrow> []
      | Returned sender \<Rightarrow>
     (case py_get event ''content'' (JObj []) of
        Raised e \<Rightarrow> []
      | Returned content \<Rightarrow>
     (case py_get content ''body'' (JStr []) of
        Raised e \<Rightarrow> []
      | Returned message_body \<Rightarrow>
          if py_eq sender (user_id st) then []
          else (case message_body of JStr msg \<Rightarrow> [(room_id, msg, sender)] | _ \<Rightarrow> []))))"

subsection \<open>Batches of message entries\<close>

definition message_event :: "string \<Rightarrow> string \<Rightarrow> json" where
  "message_event sender msg =
     JObj [(''type'', JStr ''m.room.message''),
           (''sender'', JStr sender),
           (''content'', JObj [(''msgtype'', JStr ''m.text''), (''body'', JStr msg)])]"

definition room_timeline :: "json list \<Rightarrow> json" where
  "room_timeline events = JObj [(''timeline'', JObj [(''events'', JArr events)])]"

definition batch_of :: "json \<Rightarrow> (string \<times> json) list \<Rightarrow> json" where
  "batch_of cursor joined =
     JObj [(''next_batch'', cursor), (''rooms'', JObj [(''join'', JObj joined)])]"

definition messages_of :: "(string \<times> string) list \<Rightarrow> json" where
  "messages_of entries =
     room_timeline (map (\<lambda>(sender, msg). message_event sender msg) entries)"

subsection \<open>Concrete hosts and states\<close>

text \<open>
  A host that answers the \<open>k\<close>-th read with the \<open>k\<close>-th reply of a script and with a
  transport failure after the script has run out; its clock stands still and its
  random source always draws the first element. Its \<^verbatim>\<open>eval\<close> raises on every text
  that is left to it and changes nothing.
\<close>

definition scripted_host :: "http_outcome list \<Rightarrow> host" where
  "scripted_host replies =
     \<lparr>http = (\<lambda>k. if k < length replies then replies ! k else Failed ClientError),
      clock_ms = (\<lambda>k. 0), now_text = (\<lambda>k. []), uptime_hours_text = (\<lambda>k. []),
      uptime_seconds_text = (\<lambda>k. []), choice = (\<lambda>k. 0),
      host_eval = (\<lambda>st s. if s = ''1 / 0'' then (Thrown ZeroDivisionError, st)
                           else (Thrown SyntaxError, st)),
      unicode_lower = (\<lambda>s. s), unicode_strip = (\<lambda>s. s), render = (\<lambda>j. ''?'')\<rparr>"

definition quiet_host :: host where
  "quiet_host = scripted_host []"

definition timeout_host :: host where
  "timeout_host = scripted_host [Failed TimeoutError]"

definition broken_host :: host where
  "broken_host = scripted_host [Failed ClientError]"

definition empty_cursor_host :: host where
  "empty_cursor_host =
     scripted_host [Response 200 (Returned (JObj [(''next_batch'', JStr [])]))]"

definition cursor_host :: host where
  "cursor_host =
     scripted_host [Response 200 (Returned (JObj [(''next_batch'', JStr ''s1'')]))]"

definition raising_batch :: json where
  "raising_batch = JObj [(''next_batch'', JStr ''s1''), (''rooms'', JArr [])]"

definition raising_host :: host where
  "raising_host = scripted_host [Response 200 (Returned raising_batch)]"

definition session_reply :: http_outcome where
  "session_reply =
     Response 200 (Returned (JObj [(''access_token'', JStr ''token''),
                                   (''user_id'', JStr ''@demo_ai_bot:localhost''),
                                   (''device_id'', JStr ''DEV'')]))"

definition in_use_reply :: http_outcome where
  "in_use_reply = Response 400 (Returned (JObj [(''errcode'', JStr ''M_USER_IN_USE'')]))"

definition in_use_host :: host where
  "in_use_host = scripted_host [in_use_reply, Response 403 (Returned (JObj []))]"

definition fallback_host :: host where
  "fallback_host = scripted_host [in_use_reply, session_reply]"

definition profile_error_host :: host where
  "profile_error_host = scripted_host [session_reply, Failed ClientError]"

definition profile_warning_host :: host where
  "profile_warning_host =
     scripted_host [session_reply, Response 500 (Returned (JObj [(''errcode'', JStr ''M_UNKNOWN'')]))]"

definition started_bot :: bot where
  "started_bot =
     new_bot\<lparr>access_token := JStr ''token'', user_id := JStr ''@demo_ai_bot:localhost'',
             running := True\<rparr>"

definition registered_bot :: bot where
  "registered_bot =
     logger INFO ''Bot registered successfully''
       ((next_tick (emit (Http register_request) (logger INFO start_line new_bot)))
          \<lparr>access_token := JStr ''token'', user_id := JStr ''@demo_ai_bot:localhost'',
            device_id := JStr ''DEV''\<rparr>)"

definition alice :: string where
  "alice = ''@alice:localhost''"

definition bob :: string where
  "bob = ''@bob:localhost''"

definition own_id :: string where
  "own_id = ''@demo_ai_bot:localhost''"

definition three_entries :: "(string \<times> string) list" where
  "three_entries = [(alice, ''good morning''), (own_id, ''Hello!''), (bob, ''!ping'')]"


text \<open>
  Three expressions that assign to the bot object, and a host whose \<^verbatim>\<open>eval\<close> carries
  them out: \<^verbatim>\<open>setattr\<close> and \<^verbatim>\<open>dict.update\<close> return \<^verbatim>\<open>None\<close>, which is formatted as
  \<^verbatim>\<open>None\<close>.
\<close>

definition set_cursor :: string where
  "set_cursor =
     ''setattr(self, '' @ [CHR 0x27] @ ''sync_token'' @ [CHR 0x27] @ '', ''
     @ [CHR 0x27] @ ''evil'' @ [CHR 0x27] @ '')''"

definition set_identity :: string where
  "set_identity =
     ''setattr(self, '' @ [CHR 0x27] @ ''user_id'' @ [CHR 0x27] @ '', ''
     @ [CHR 0x27] @ ''@bob:localhost'' @ [CHR 0x27] @ '')''"

definition set_counter :: string where
  "set_counter = ''self.stats.update(commands_processed=41)''"

definition rewriting_host :: "http_outcome list \<Rightarrow> host" where
  "rewriting_host replies =
     (scripted_host replies)
       \<lparr>host_eval :=
          (\<lambda>st s. if s = set_cursor then (Done ''None'', st\<lparr>sync_token := JStr ''evil''\<rparr>)
                  else if s = set_identity then (Done ''None'', st\<lparr>user_id := JStr bob\<rparr>)
                  else if s = set_counter then (Done ''None'', st\<lparr>commands_processed := 41\<rparr>)
                  else (Thrown SyntaxError, st))\<rparr>"


definition cursor_batch :: json where
  "cursor_batch =
     batch_of (JStr ''s1'') [(''!a:localhost'', messages_of [(alice, ''!calc '' @ set_cursor)])]"

definition cursor_rewriting_host :: host where
  "cursor_rewriting_host = rewriting_host [Response 200 (Returned cursor_batch)]"
section \<open>Properties\<close>

subsection \<open>What a call leaves as it is\<close>

lemma session_emit [simp]: "session_of (emit a st) = session_of st"
  by (simp add: session_of_def emit_def)

lemma session_logger [simp]: "session_of (logger l m st) = session_of st"
  by (simp add: logger_def)

lemma session_sleep [simp]: "session_of (sleep ms st) = session_of st"
  by (simp add: sleep_def)

lemma session_next_tick [simp]: "session_of (next_tick st) = session_of st"
  by (simp add: session_of_def next_tick_def)

lemma session_http_call [simp]: "session_of (snd (http_call H req st)) = session_of st"
  by (simp add: http_call_def)

lemma session_random_choice [simp]: "session_of (snd (random_choice H xs st)) = session_of st"
  by (simp add: random_choice_def)

lemma session_counters [simp]:
  "session_of (st\<lparr>messages_sent := a\<rparr>) = session_of st"
  "session_of (st\<lparr>commands_processed := b\<rparr>) = session_of st"
  "session_of (st\<lparr>rooms_joined := c\<rparr>) = session_of st"
  by (simp_all add: session_of_def)

lemma session_send_message [simp]:
  "session_of (snd (send_message H room_id message st)) = session_of st"
  by (simp add: send_message_def Let_def http_call_def split: prod.splits http_outcome.splits outcome.splits)

lemma session_sync_token: "session_of a = session_of b \<Longrightarrow> sync_token a = sync_token b"
  by (simp add: session_of_def)

lemma session_running: "session_of a = session_of b \<Longrightarrow> running a = running b"
  by (simp add: session_of_def)

lemma wf_rooms_session: "session_of st' = session_of st \<Longrightarrow> wf_rooms st' = wf_rooms st"
  by (simp add: wf_rooms_def session_of_def)

lemma user_id_session: "session_of st' = session_of st \<Longrightarrow> user_id st' = user_id st"
  by (simp add: session_of_def)

lemma trace_sleep: "trace (sleep d st) = trace st @ [Sleep d]"
  by (simp add: sleep_def emit_def)

lemma trace_logger: "trace (logger l m st) = trace st @ [Log l m]"
  by (simp add: logger_def emit_def)

lemma trace_emit: "trace (emit a st) = trace st @ [a]"
  by (simp add: emit_def)

lemma tick_logger [simp]: "tick (logger l m st) = tick st"
  by (simp add: logger_def emit_def)

lemma tick_emit [simp]: "tick (emit a st) = tick st"
  by (simp add: emit_def)

lemma tick_next_tick [simp]: "tick (next_tick st) = Suc (tick st)"
  by (simp add: next_tick_def)




lemma send_message_trace:
  "\<exists>req l m. trace (snd (send_message H room_id message st)) = trace st @ [Http req, Log l m]
      \<and> body req = text_body message"
  by (cases "http H (Suc (tick st))")
     (auto simp: send_message_def Let_def http_call_def message_request_def text_body_def
        next_tick_def emit_def logger_def split: outcome.splits)

lemma send_message_commands_processed [simp]:
  "commands_processed (snd (send_message H room_id message st)) = commands_processed st"
  by (cases "http H (Suc (tick st))")
     (auto simp: send_message_def Let_def http_call_def
        next_tick_def emit_def logger_def split: outcome.splits)

subsection \<open>The calculator's evaluation\<close>

lemma completed_returns [simp]: "completed r \<noteq> Never_returns"
  by (cases r) simp_all

lemma py_eval_trace [simp]: "trace (snd (py_eval H s st)) = trace st"
  by (simp add: py_eval_def split_beta split: option.splits)

lemma py_eval_effect_free:
  assumes "effect_free H"
  shows "snd (py_eval H s st) = st" and "fst (py_eval H s st) \<noteq> Never_returns"
  using assms
  by (simp_all add: py_eval_def effect_free_def split_beta split: option.splits)

lemma cmd_calculate_trace [simp]: "trace (snd (cmd_calculate H args sender st)) = trace st"
proof -
  obtain r st1 where h: "py_eval H (replace_caret args) st = (r, st1)"
    by (cases "py_eval H (replace_caret args) st")
  from py_eval_trace [of H "replace_caret args" st] h have "trace st1 = trace st"
    by simp
  then show ?thesis
    using h by (cases r) (simp_all add: cmd_calculate_def)
qed

lemma cmd_calculate_effect_free:
  assumes "effect_free H"
  shows "\<exists>reply. cmd_calculate H args sender st = (Done reply, st)"
proof -
  obtain r st1 where h: "py_eval H (replace_caret args) st = (r, st1)"
    by (cases "py_eval H (replace_caret args) st")
  from py_eval_effect_free [OF assms, of "replace_caret args" st] h
  have "st1 = st" "r \<noteq> Never_returns"
    by simp_all
  then show ?thesis
    using h by (cases r) (simp_all add: cmd_calculate_def)
qed

lemma cmd_calculate_not_thrown: "fst (cmd_calculate H args sender st) \<noteq> Thrown e"
proof -
  obtain r st1 where h: "py_eval H (replace_caret args) st = (r, st1)"
    by (cases "py_eval H (replace_caret args) st")
  show ?thesis
    using h by (cases r) (simp_all add: cmd_calculate_def)
qed


subsection \<open>The handlers\<close>


lemma calc_handler: "map_of commands ''!calc'' = Some cmd_calculate"
  by (simp add: commands_def)

lemma handler_trace:
  assumes "map_of commands cmd = Some handler"
  shows "trace (snd (handler H args sender st)) = trace st"
  using assms
  by (auto simp: commands_def cmd_help_def cmd_time_def cmd_status_def cmd_ping_def cmd_rooms_def
      cmd_stats_def cmd_joke_def cmd_weather_def cmd_quote_def random_choice_def
      next_tick_def split: if_splits)

text \<open>Every handler but the calculator leaves the bot as it is, up to the tick.\<close>

lemma handler_frame:
  assumes "map_of commands cmd = Some handler" and "cmd \<noteq> ''!calc''"
  shows "session_of (snd (handler H args sender st)) = session_of st"
    and "commands_processed (snd (handler H args sender st)) = commands_processed st"
    and "fst (handler H args sender st) \<noteq> Never_returns"
  using assms
  by (auto simp: commands_def cmd_help_def cmd_time_def cmd_status_def cmd_ping_def cmd_rooms_def
      cmd_stats_def cmd_joke_def cmd_weather_def cmd_quote_def random_choice_def
      next_tick_def session_of_def split: if_splits)

lemma handler_effect_free:
  assumes "map_of commands cmd = Some handler" and "effect_free H"
  shows "session_of (snd (handler H args sender st)) = session_of st"
    and "commands_processed (snd (handler H args sender st)) = commands_processed st"
    and "fst (handler H args sender st) \<noteq> Never_returns"
proof -
  have "session_of (snd (handler H args sender st)) = session_of st
      \<and> commands_processed (snd (handler H args sender st)) = commands_processed st
      \<and> fst (handler H args sender st) \<noteq> Never_returns"
  proof (cases "cmd = ''!calc''")
    case True
    then have "handler = cmd_calculate"
      using assms(1) calc_handler by simp
    then show ?thesis
      using cmd_calculate_effect_free [OF assms(2), of args sender st] by auto
  next
    case False
    from handler_frame [OF assms(1) False] show ?thesis by simp
  qed
  then show "session_of (snd (handler H args sender st)) = session_of st"
    and "commands_processed (snd (handler H args sender st)) = commands_processed st"
    and "fst (handler H args sender st) \<noteq> Never_returns"
    by simp_all
qed

lemma room_lines_returns:
  "list_all (\<lambda>(room_id, room_info). is_str room_id \<and> is_dict room_info) rs
   \<Longrightarrow> \<exists>t. room_lines H rs acc = Returned t"
proof (induction rs arbitrary: acc)
  case Nil
  show ?case by simp
next
  case (Cons entry rs)
  obtain room_id room_info where e: "entry = (room_id, room_info)"
    by (cases entry)
  from Cons.prems e obtain s d where "room_id = JStr s" "room_info = JObj d"
    by (cases room_id; cases room_info) simp_all
  then show ?case
    using Cons e by simp
qed

lemma handler_not_thrown:
  assumes "map_of commands cmd = Some handler" and "wf_rooms st"
  shows "fst (handler H args sender st) \<noteq> Thrown e"
proof (cases "cmd = ''!calc''")
  case True
  then have "handler = cmd_calculate"
    using assms(1) calc_handler by simp
  then show ?thesis by (simp add: cmd_calculate_not_thrown)
next
  case False
  have "completed (room_lines H (rooms st) acc) \<noteq> Thrown e" for acc
  proof -
    from room_lines_returns [of "rooms st" H acc] assms(2) obtain t where
      "room_lines H (rooms st) acc = Returned t"
      by (auto simp: wf_rooms_def)
    then show ?thesis by simp
  qed
  then have "fst (cmd_rooms H args sender st) \<noteq> Thrown e"
    by (simp add: cmd_rooms_def)
  then show ?thesis
    using assms(1) False
    by (auto simp: commands_def cmd_help_def cmd_time_def cmd_status_def cmd_ping_def
        cmd_stats_def cmd_joke_def cmd_weather_def cmd_quote_def random_choice_def
        split: if_splits)
qed


subsection \<open>\<^verbatim>\<open>handle_command\<close>\<close>

lemma handle_command_miss:
  assumes "map_of commands (command_token H command) = None"
  shows "handle_command H room_id command sender st
     = (Done (),
        snd (send_message H (JStr room_id) (unknown_command (command_token H command))
               (emit (Dispatch room_id command sender) st)))"
  using assms by (simp add: handle_command_def command_token_def Let_def split_beta)

lemma handle_command_hit:
  assumes "map_of commands (command_token H command) = Some handler"
  shows "handle_command H room_id command sender st
     = (case handler H (command_args command) sender (handler_entry room_id command sender st) of
          (Done response, st2) \<Rightarrow> (Done (), snd (send_message H (JStr room_id) response st2))
        | (Thrown e, st2) \<Rightarrow> (Thrown e, st2)
        | (Never_returns, st2) \<Rightarrow> (Never_returns, st2))"
  using assms
  by (simp add: handle_command_def command_token_def command_args_def handler_entry_def
      Let_def split_beta emit_def split: completion.splits prod.splits)

lemma trace_handler_entry:
  "trace (handler_entry room_id command sender st) = trace st @ [Dispatch room_id command sender]"
  by (simp add: handler_entry_def emit_def)

lemma session_handler_entry [simp]:
  "session_of (handler_entry room_id command sender st) = session_of st"
  by (simp add: handler_entry_def)

lemma wf_rooms_handler_entry [simp]:
  "wf_rooms (handler_entry room_id command sender st) = wf_rooms st"
  by (rule wf_rooms_session) simp

lemma counter_handler_entry [simp]:
  "commands_processed (handler_entry room_id command sender st) = commands_processed st + 1"
  by (simp add: handler_entry_def)

lemma handle_command_effect_free:
  assumes "effect_free H"
  shows "session_of (snd (handle_command H room_id command sender st)) = session_of st"
    and "fst (handle_command H room_id command sender st) \<noteq> Never_returns"
proof -
  have "session_of (snd (handle_command H room_id command sender st)) = session_of st
      \<and> fst (handle_command H room_id command sender st) \<noteq> Never_returns"
  proof (cases "map_of commands (command_token H command)")
    case None
    then show ?thesis by (simp add: handle_command_miss)
  next
    case (Some handler)
    let ?st1 = "handler_entry room_id command sender st"
    obtain r st2 where h: "handler H (command_args command) sender ?st1 = (r, st2)"
      by (cases "handler H (command_args command) sender ?st1")
    from handler_effect_free [OF Some assms, of "command_args command" sender ?st1] h
    have "session_of st2 = session_of st" "r \<noteq> Never_returns"
      by simp_all
    then show ?thesis
      using h by (cases r) (simp_all add: handle_command_hit [OF Some])
  qed
  then show "session_of (snd (handle_command H room_id command sender st)) = session_of st"
    and "fst (handle_command H room_id command sender st) \<noteq> Never_returns"
    by simp_all
qed

text \<open>A call of \<^verbatim>\<open>handle_command\<close> that does not return has sent nothing.\<close>

lemma handle_command_trace:
  "fst (handle_command H room_id command sender st) = Never_returns \<Longrightarrow>
     trace (snd (handle_command H room_id command sender st))
       = trace st @ [Dispatch room_id command sender]"
proof (cases "map_of commands (command_token H command)")
  case None
  assume "fst (handle_command H room_id command sender st) = Never_returns"
  then show ?thesis using None by (simp add: handle_command_miss)
next
  case (Some handler)
  assume n: "fst (handle_command H room_id command sender st) = Never_returns"
  let ?st1 = "handler_entry room_id command sender st"
  obtain r st2 where h: "handler H (command_args command) sender ?st1 = (r, st2)"
    by (cases "handler H (command_args command) sender ?st1")
  from handler_trace [OF Some, of H "command_args command" sender ?st1] h
  have "trace st2 = trace st @ [Dispatch room_id command sender]"
    by (simp add: trace_handler_entry)
  then show ?thesis
    using h n by (cases r) (simp_all add: handle_command_hit [OF Some])
qed




lemma handle_command_not_thrown:
  assumes "wf_rooms st"
  shows "fst (handle_command H room_id command sender st) \<noteq> Thrown e"
proof (cases "map_of commands (command_token H command)")
  case None
  then show ?thesis by (simp add: handle_command_miss)
next
  case (Some handler)
  let ?st1 = "handler_entry room_id command sender st"
  obtain r st2 where h: "handler H (command_args command) sender ?st1 = (r, st2)"
    by (cases "handler H (command_args command) sender ?st1")
  from handler_not_thrown [OF Some, of ?st1 H "command_args command" sender e] assms h
  have "r \<noteq> Thrown e" by simp
  then show ?thesis
    using h by (cases r) (simp_all add: handle_command_hit [OF Some])
qed

subsection \<open>The router\<close>

lemma session_handle_ai_response [simp]:
  "session_of (snd (handle_ai_response H room_id message sender st)) = session_of st"
  by (simp add: handle_ai_response_def Let_def split_beta)

lemma handle_ai_response_returns [simp]:
  "fst (handle_ai_response H room_id message sender st) = Done ()"
  by (simp add: handle_ai_response_def Let_def split_beta)

lemma handle_message_event_effect_free:
  assumes "effect_free H"
  shows "session_of (snd (handle_message_event H room_id event st)) = session_of st"
    and "fst (handle_message_event H room_id event st) \<noteq> Never_returns"
  by (simp_all add: handle_message_event_def Let_def handle_command_effect_free [OF assms]
      split: outcome.splits json.splits)

lemma handle_events_effect_free:
  assumes "effect_free H"
  shows "session_of (snd (handle_events H room_id evs st)) = session_of st
       \<and> fst (handle_events H room_id evs st) \<noteq> Never_returns"
proof (induction evs arbitrary: st)
  case Nil
  show ?case by simp
next
  case (Cons event rest)
  show ?case
  proof (cases "py_get event ''type'' JNull")
    case (Raised e)
    then show ?thesis by simp
  next
    case (Returned kind)
    show ?thesis
    proof (cases "py_eq kind (JStr ''m.room.message'')")
      case False
      then show ?thesis using Returned Cons.IH [of st] by simp
    next
      case True
      obtain r st1 where h: "handle_message_event H room_id event st = (r, st1)"
        by (cases "handle_message_event H room_id event st")
      from handle_message_event_effect_free [OF assms, of room_id event st] h
      have s: "session_of st1 = session_of st" and n: "r \<noteq> Never_returns"
        by simp_all
      from Cons.IH [of st1] s
      have "session_of (snd (handle_events H room_id rest st1)) = session_of st
          \<and> fst (handle_events H room_id rest st1) \<noteq> Never_returns"
        by simp
      then show ?thesis
        using Returned True h s n by (cases r) simp_all
    qed
  qed
qed

lemma handle_rooms_effect_free:
  assumes "effect_free H"
  shows "session_of (snd (handle_rooms H d st)) = session_of st
       \<and> fst (handle_rooms H d st) \<noteq> Never_returns"
proof (induction d arbitrary: st)
  case Nil
  show ?case by simp
next
  case (Cons entry rest)
  obtain room_id room_data where e: "entry = (room_id, room_data)"
    by (cases entry)
  show ?case
  proof (cases "py_get room_data ''timeline'' (JObj [])")
    case (Raised x)
    then show ?thesis using e by simp
  next
    case tl: (Returned timeline)
    show ?thesis
    proof (cases "py_get timeline ''events'' (JArr [])")
      case (Raised x)
      then show ?thesis using e tl by simp
    next
      case ev: (Returned events)
      show ?thesis
      proof (cases "py_iter events")
        case (Raised x)
        then show ?thesis using e tl ev by simp
      next
        case it: (Returned evs)
        obtain r st1 where h: "handle_events H room_id evs st = (r, st1)"
          by (cases "handle_events H room_id evs st")
        from handle_events_effect_free [OF assms, of room_id evs st] h
        have s: "session_of st1 = session_of st" and n: "r \<noteq> Never_returns"
          by simp_all
        from Cons.IH [of st1] s
        have "session_of (snd (handle_rooms H rest st1)) = session_of st
            \<and> fst (handle_rooms H rest st1) \<noteq> Never_returns"
          by simp
        then show ?thesis
          using e tl ev it h s n by (cases r) simp_all
      qed
    qed
  qed
qed

lemma process_events_effect_free:
  assumes "effect_free H"
  shows "session_of (snd (process_events H sync_data st)) = session_of st"
    and "fst (process_events H sync_data st) \<noteq> Never_returns"
  using handle_rooms_effect_free [OF assms]
  by (simp_all add: process_events_def split: outcome.splits json.splits)

text \<open>
  Where the processing of a batch stops for good, the last thing on record is the call
  of \<^verbatim>\<open>handle_command\<close> in which the calculator was entered.
\<close>

lemma handle_message_event_stops:
  assumes "fst (handle_message_event H room_id event st) = Never_returns"
  shows "\<exists>pre r c s. trace (snd (handle_message_event H room_id event st))
                      = pre @ [Dispatch r c s]"
proof -
  from assms obtain msg sender where
    eq: "handle_message_event H room_id event st
           = handle_command H room_id msg sender (logger INFO ''Received message'' st)"
    by (auto simp: handle_message_event_def Let_def
        split: outcome.splits json.splits if_splits)
  from handle_command_trace [of H room_id msg sender "logger INFO ''Received message'' st"]
    assms eq
  show ?thesis by auto
qed

lemma handle_events_stops:
  "fst (handle_events H room_id evs st) = Never_returns \<Longrightarrow>
     \<exists>pre r c s. trace (snd (handle_events H room_id evs st)) = pre @ [Dispatch r c s]"
proof (induction evs arbitrary: st)
  case Nil
  then show ?case by simp
next
  case (Cons event rest)
  show ?case
  proof (cases "py_get event ''type'' JNull")
    case (Raised e)
    then show ?thesis using Cons.prems by simp
  next
    case (Returned kind)
    show ?thesis
    proof (cases "py_eq kind (JStr ''m.room.message'')")
      case False
      then show ?thesis using Returned Cons by simp
    next
      case True
      obtain r st1 where h: "handle_message_event H room_id event st = (r, st1)"
        by (cases "handle_message_event H room_id event st")
      show ?thesis
      proof (cases r)
        case (Done u)
        then show ?thesis using Returned True h Cons by simp
      next
        case (Thrown e)
        then show ?thesis using Returned True h Cons.prems by simp
      next
        case Never_returns
        from handle_message_event_stops [of H room_id event st] h Never_returns
        show ?thesis using Returned True by simp
      qed
    qed
  qed
qed

lemma handle_rooms_stops:
  "fst (handle_rooms H d st) = Never_returns \<Longrightarrow>
     \<exists>pre r c s. trace (snd (handle_rooms H d st)) = pre @ [Dispatch r c s]"
proof (induction d arbitrary: st)
  case Nil
  then show ?case by simp
next
  case (Cons entry rest)
  obtain room_id room_data where e: "entry = (room_id, room_data)"
    by (cases entry)
  show ?case
  proof (cases "py_get room_data ''timeline'' (JObj [])")
    case (Raised x)
    then show ?thesis using e Cons.prems by simp
  next
    case tl: (Returned timeline)
    show ?thesis
    proof (cases "py_get timeline ''events'' (JArr [])")
      case (Raised x)
      then show ?thesis using e tl Cons.prems by simp
    next
      case ev: (Returned events)
      show ?thesis
      proof (cases "py_iter events")
        case (Raised x)
        then show ?thesis using e tl ev Cons.prems by simp
      next
        case it: (Returned evs)
        obtain r st1 where h: "handle_events H room_id evs st = (r, st1)"
          by (cases "handle_events H room_id evs st")
        show ?thesis
        proof (cases r)
          case (Done u)
          then show ?thesis using e tl ev it h Cons by simp
        next
          case (Thrown x)
          then show ?thesis using e tl ev it h Cons.prems by simp
        next
          case Never_returns
          from handle_events_stops [of H room_id evs st] h Never_returns
          show ?thesis using e tl ev it by simp
        qed
      qed
    qed
  qed
qed

lemma process_events_stops:
  assumes "process_events H sync_data st = (Never_returns, st2)"
  shows "\<exists>pre r c s. trace st2 = pre @ [Dispatch r c s]"
proof -
  have "fst (process_events H sync_data st) = Never_returns \<Longrightarrow>
      \<exists>pre r c s. trace (snd (process_events H sync_data st)) = pre @ [Dispatch r c s]"
    using handle_rooms_stops [of H _ st]
    by (auto simp: process_events_def split: outcome.splits json.splits)
  then show ?thesis using assms by simp
qed

subsection \<open>Hand-overs\<close>

lemma handovers_emit:
  "handovers (emit a st) = handovers st @ handover a"
  by (simp add: handovers_def emit_def)

lemma handovers_send_message [simp]:
  "handovers (snd (send_message H room_id message st)) = handovers st"
  using send_message_trace [of H room_id message st]
  by (auto simp: handovers_def)

lemma handovers_handle_command:
  "handovers (snd (handle_command H room_id command sender st))
     = handovers st @ [(room_id, command, sender)]"
proof (cases "map_of commands (command_token H command)")
  case None
  then show ?thesis
    by (simp add: handle_command_miss handovers_emit)
next
  case (Some handler)
  let ?st1 = "handler_entry room_id command sender st"
  obtain r st2 where h: "handler H (command_args command) sender ?st1 = (r, st2)"
    by (cases "handler H (command_args command) sender ?st1")
  from handler_trace [OF Some, of H "command_args command" sender ?st1] h
  have "trace st2 = trace st @ [Dispatch room_id command sender]"
    by (simp add: trace_handler_entry)
  then have "handovers st2 = handovers st @ [(room_id, command, sender)]"
    by (simp add: handovers_def)
  then show ?thesis
    using h by (cases r) (simp_all add: handle_command_hit [OF Some])
qed

lemma handovers_random_choice [simp]:
  "handovers (snd (random_choice H xs st)) = handovers st"
  by (simp add: random_choice_def next_tick_def handovers_def)

lemma handovers_sleep [simp]: "handovers (sleep d st) = handovers st"
  by (simp add: sleep_def handovers_emit)

lemma handovers_logger [simp]: "handovers (logger l m st) = handovers st"
  by (simp add: logger_def handovers_emit)

lemma handovers_handle_ai_response:
  "handovers (snd (handle_ai_response H room_id message sender st))
     = handovers st @ [(room_id, message, sender)]"
  by (simp add: handle_ai_response_def Let_def split_beta handovers_emit)

text \<open>What \<^verbatim>\<open>handle_message_event\<close> hands over for one entry of a timeline.\<close>

lemma handle_message_event_self:
  assumes "py_get event ''sender'' (JStr []) = Returned sender"
    and "py_eq sender (user_id st)"
  shows "snd (handle_message_event H room_id event st) = st"
  using assms
  by (simp add: handle_message_event_def split: outcome.splits)

lemma handovers_handle_message_event:
  "handovers (snd (handle_message_event H room_id event st))
     = handovers st @ routed st room_id event"
  by (simp add: handle_message_event_def routed_def Let_def handovers_handle_command
      handovers_handle_ai_response
      split: outcome.splits json.splits)

lemma routed_foreign:
  "list_all (\<lambda>(room, msg, sender). \<not> py_eq sender (user_id st)) (routed st room_id event)"
  by (simp add: routed_def split: outcome.splits json.splits)

lemma handle_events_foreign:
  assumes "effect_free H"
  shows "\<exists>new. handovers (snd (handle_events H room_id evs st)) = handovers st @ new
         \<and> list_all (\<lambda>(room, msg, sender). \<not> py_eq sender (user_id st)) new"
proof (induction evs arbitrary: st)
  case Nil
  show ?case by simp
next
  case (Cons event rest)
  show ?case
  proof (cases "py_get event ''type'' JNull")
    case (Raised e)
    then show ?thesis by simp
  next
    case (Returned kind)
    show ?thesis
    proof (cases "py_eq kind (JStr ''m.room.message'')")
      case False
      then show ?thesis using Returned Cons.IH [of st] by simp
    next
      case True
      obtain r st1 where h: "handle_message_event H room_id event st = (r, st1)"
        by (cases "handle_message_event H room_id event st")
      from handle_message_event_effect_free [OF assms, of room_id event st] h
      have s: "session_of st1 = session_of st" and n: "r \<noteq> Never_returns"
        by simp_all
      have u: "user_id st1 = user_id st"
        using s by (rule user_id_session)
      from handovers_handle_message_event [of H room_id event st] h
      have c: "handovers st1 = handovers st @ routed st room_id event"
        by simp
      from Cons.IH [of st1] u obtain new where
        n1: "handovers (snd (handle_events H room_id rest st1)) = handovers st1 @ new"
        and n2: "list_all (\<lambda>(room, msg, sender). \<not> py_eq sender (user_id st)) new"
        by auto
      have a: "handovers (snd (handle_events H room_id rest st1))
             = handovers st @ (routed st room_id event @ new)"
        using n1 c by simp
      have b: "list_all (\<lambda>(room, msg, sender). \<not> py_eq sender (user_id st))
             (routed st room_id event @ new)"
        using n2 routed_foreign [of st room_id event] by simp
      show ?thesis
      proof (cases r)
        case (Thrown e)
        have "handovers (snd (handle_events H room_id (event # rest) st))
                = handovers st @ routed st room_id event"
          using Returned True h Thrown c by simp
        then show ?thesis using routed_foreign [of st room_id event] by blast
      next
        case (Done x)
        have "handovers (snd (handle_events H room_id (event # rest) st))
                = handovers st @ (routed st room_id event @ new)"
          using Returned True h Done a by simp
        then show ?thesis using b by blast
      next
        case Never_returns
        then show ?thesis using n by simp
      qed
    qed
  qed
qed

lemma handle_rooms_foreign:
  assumes "effect_free H"
  shows "\<exists>new. handovers (snd (handle_rooms H d st)) = handovers st @ new
         \<and> list_all (\<lambda>(room, msg, sender). \<not> py_eq sender (user_id st)) new"
proof (induction d arbitrary: st)
  case Nil
  show ?case by simp
next
  case (Cons entry rest)
  obtain room_id room_data where e: "entry = (room_id, room_data)"
    by (cases entry)
  show ?case
  proof (cases "py_get room_data ''timeline'' (JObj [])")
    case (Raised x)
    then show ?thesis using e by simp
  next
    case tl: (Returned timeline)
    show ?thesis
    proof (cases "py_get timeline ''events'' (JArr [])")
      case (Raised x)
      then show ?thesis using e tl by simp
    next
      case ev: (Returned events)
      show ?thesis
      proof (cases "py_iter events")
        case (Raised x)
        then show ?thesis using e tl ev by simp
      next
        case it: (Returned evs)
        obtain r st1 where h: "handle_events H room_id evs st = (r, st1)"
          by (cases "handle_events H room_id evs st")
        from handle_events_effect_free [OF assms, of room_id evs st] h
        have s: "session_of st1 = session_of st" and n: "r \<noteq> Never_returns"
          by simp_all
        have u: "user_id st1 = user_id st"
          using s by (rule user_id_session)
        from handle_events_foreign [OF assms, of room_id evs st] h obtain new1 where
          m1: "handovers st1 = handovers st @ new1"
          and f1: "list_all (\<lambda>(room, msg, sender). \<not> py_eq sender (user_id st)) new1"
          by auto
        from Cons.IH [of st1] u obtain new2 where
          n2: "handovers (snd (handle_rooms H rest st1)) = handovers st1 @ new2"
          and f2: "list_all (\<lambda>(room, msg, sender). \<not> py_eq sender (user_id st)) new2"
          by auto
        have m2: "handovers (snd (handle_rooms H rest st1)) = handovers st @ (new1 @ new2)"
          using m1 n2 by simp
        show ?thesis
        proof (cases r)
          case (Thrown x)
          then have "handovers (snd (handle_rooms H (entry # rest) st)) = handovers st @ new1"
            using e tl ev it h m1 by simp
          then show ?thesis using f1 by blast
        next
          case (Done x)
          then have "handovers (snd (handle_rooms H (entry # rest) st))
              = handovers st @ (new1 @ new2)"
            using e tl ev it h m2 by simp
          moreover have "list_all (\<lambda>(room, msg, sender). \<not> py_eq sender (user_id st))
              (new1 @ new2)"
            using f1 f2 by simp
          ultimately show ?thesis by blast
        next
          case Never_returns
          then show ?thesis using n by simp
        qed
      qed
    qed
  qed
qed

lemma process_events_foreign:
  assumes "effect_free H"
  shows "\<exists>new. handovers (snd (process_events H sync_data st)) = handovers st @ new
         \<and> list_all (\<lambda>(room, msg, sender). \<not> py_eq sender (user_id st)) new"
  using handle_rooms_foreign [OF assms, of _ st]
  by (auto simp: process_events_def split: outcome.splits json.splits)

subsection \<open>Batches of message entries\<close>

lemma message_event_type:
  "py_get (message_event sender msg) ''type'' JNull = Returned (JStr ''m.room.message'')"
  by (simp add: message_event_def)

lemma handle_events_message:
  "handle_events H room_id (message_event sender msg # rest) st
     = (case handle_message_event H room_id (message_event sender msg) st of
          (Done u, st1) \<Rightarrow> handle_events H room_id rest st1
        | (Thrown e, st1) \<Rightarrow> (Thrown e, st1)
        | (Never_returns, st1) \<Rightarrow> (Never_returns, st1))"
  by (simp add: message_event_type)

lemma handle_message_event_own:
  "py_eq (JStr sender) (user_id st) \<Longrightarrow>
     handle_message_event H room_id (message_event sender msg) st = (Done (), st)"
  by (simp add: handle_message_event_def message_event_def)

lemma handle_message_event_command:
  "\<not> py_eq (JStr sender) (user_id st) \<Longrightarrow> starts_with ''!'' msg \<Longrightarrow>
     handle_message_event H room_id (message_event sender msg) st
       = handle_command H room_id msg (JStr sender) (logger INFO ''Received message'' st)"
  by (simp add: handle_message_event_def message_event_def)

lemma handle_message_event_text:
  "\<not> py_eq (JStr sender) (user_id st) \<Longrightarrow> \<not> starts_with ''!'' msg \<Longrightarrow>
     handle_message_event H room_id (message_event sender msg) st
       = handle_ai_response H room_id msg (JStr sender) (logger INFO ''Received message'' st)"
  by (simp add: handle_message_event_def message_event_def)

lemma process_events_one_room:
  "process_events H (batch_of cursor [(r1, messages_of xs)]) st
     = (case handle_events H r1 (map (\<lambda>(sender, msg). message_event sender msg) xs) st of
          (Done u, st1) \<Rightarrow> (Done (), st1)
        | (Thrown e, st1) \<Rightarrow> (Thrown e, st1)
        | (Never_returns, st1) \<Rightarrow> (Never_returns, st1))"
  by (simp add: process_events_def batch_of_def messages_of_def room_timeline_def
      split: prod.splits completion.splits)

lemma process_events_two_rooms_unfold:
  "process_events H (batch_of cursor [(r1, messages_of xs), (r2, messages_of ys)]) st
     = (case handle_events H r1 (map (\<lambda>(sender, msg). message_event sender msg) xs) st of
          (Done u, st1) \<Rightarrow>
            (case handle_events H r2 (map (\<lambda>(sender, msg). message_event sender msg) ys) st1 of
               (Done u, st2) \<Rightarrow> (Done (), st2)
             | (Thrown e, st2) \<Rightarrow> (Thrown e, st2)
             | (Never_returns, st2) \<Rightarrow> (Never_returns, st2))
        | (Thrown e, st1) \<Rightarrow> (Thrown e, st1)
        | (Never_returns, st1) \<Rightarrow> (Never_returns, st1))"
  by (simp add: process_events_def batch_of_def messages_of_def room_timeline_def
      split: prod.splits completion.splits)

subsection \<open>The calculator command\<close>


lemma calc_token: "command_token H (''!calc '' @ args) = ''!calc''"
  by (simp add: command_token_def split_once_def py_lower_def is_ascii_def ascii_lower_def)

lemma calc_args: "command_args (''!calc '' @ args) = args"
  by (simp add: command_args_def split_once_def)

lemma calc_command:
  "handle_command H room_id (''!calc '' @ args) sender st
     = (case cmd_calculate H args sender (handler_entry room_id (''!calc '' @ args) sender st) of
          (Done response, st2) \<Rightarrow> (Done (), snd (send_message H (JStr room_id) response st2))
        | (Thrown e, st2) \<Rightarrow> (Thrown e, st2)
        | (Never_returns, st2) \<Rightarrow> (Never_returns, st2))"
proof -
  have "map_of commands (command_token H (''!calc '' @ args)) = Some cmd_calculate"
    by (simp only: calc_token calc_handler)
  from handle_command_hit [OF this, of room_id sender st] show ?thesis
    by (simp only: calc_args)
qed

lemma ghost_restored:
  "tick st1 = tick st \<Longrightarrow> trace st1 = trace st \<Longrightarrow>
     st1\<lparr>tick := tick st, trace := trace st\<rparr> = st1"
  by (cases st1) simp

lemma rewriting_texts:
  "arith set_cursor = None" "arith set_identity = None" "arith set_counter = None"
  "replace_caret set_cursor = set_cursor" "replace_caret set_identity = set_identity"
  "replace_caret set_counter = set_counter"
  "set_cursor \<noteq> []" "set_identity \<noteq> []" "set_counter \<noteq> []"
  "set_identity \<noteq> set_cursor" "set_counter \<noteq> set_cursor" "set_counter \<noteq> set_identity"
  by code_simp+

lemma rewriting_eval:
  "py_eval (rewriting_host rs) set_cursor st = (Done ''None'', st\<lparr>sync_token := JStr ''evil''\<rparr>)"
  "py_eval (rewriting_host rs) set_identity st = (Done ''None'', st\<lparr>user_id := JStr bob\<rparr>)"
  "py_eval (rewriting_host rs) set_counter st = (Done ''None'', st\<lparr>commands_processed := 41\<rparr>)"
  by (simp_all add: py_eval_def rewriting_host_def rewriting_texts ghost_restored)

lemma rewriting_calculate:
  "cmd_calculate (rewriting_host rs) set_cursor sender st
     = (Done (calc_result set_cursor ''None''), st\<lparr>sync_token := JStr ''evil''\<rparr>)"
  "cmd_calculate (rewriting_host rs) set_identity sender st
     = (Done (calc_result set_identity ''None''), st\<lparr>user_id := JStr bob\<rparr>)"
  "cmd_calculate (rewriting_host rs) set_counter sender st
     = (Done (calc_result set_counter ''None''), st\<lparr>commands_processed := 41\<rparr>)"
  by (simp_all add: cmd_calculate_def rewriting_texts rewriting_eval)

lemma rewriting_command:
  "handle_command (rewriting_host rs) room_id (''!calc '' @ set_cursor) sender st
     = (Done (), snd (send_message (rewriting_host rs) (JStr room_id)
                        (calc_result set_cursor ''None'')
                        ((handler_entry room_id (''!calc '' @ set_cursor) sender st)
                           \<lparr>sync_token := JStr ''evil''\<rparr>)))"
  "handle_command (rewriting_host rs) room_id (''!calc '' @ set_identity) sender st
     = (Done (), snd (send_message (rewriting_host rs) (JStr room_id)
                        (calc_result set_identity ''None'')
                        ((handler_entry room_id (''!calc '' @ set_identity) sender st)
                           \<lparr>user_id := JStr bob\<rparr>)))"
  "handle_command (rewriting_host rs) room_id (''!calc '' @ set_counter) sender st
     = (Done (), snd (send_message (rewriting_host rs) (JStr room_id)
                        (calc_result set_counter ''None'')
                        ((handler_entry room_id (''!calc '' @ set_counter) sender st)
                           \<lparr>commands_processed := 41\<rparr>)))"
  by (simp_all only: calc_command rewriting_calculate prod.case completion.case)

lemma scripted_effect_free: "effect_free (scripted_host replies)"
  by (simp add: effect_free_def scripted_host_def)

subsection \<open>The sync loop and its cursor\<close>

lemma subscript_truthy: "subscript data k = Returned c \<Longrightarrow> py_truthy data"
  by (cases data) (auto split: option.splits)

lemma sync_events_success:
  assumes "returned_cursor (http H (tick st)) = Some c"
  shows "\<exists>data. sync_events H st
            = (data, (next_tick (emit (Http (sync_request H st)) st))\<lparr>sync_token := c\<rparr>)
          \<and> py_truthy data"
  using assms
  by (auto simp: returned_cursor_def sync_events_def http_call_def subscript_truthy
      split: http_outcome.splits outcome.splits if_splits)

lemma sync_events_failure:
  assumes "returned_cursor (http H (tick st)) = None"
  shows "\<exists>l m. sync_events H st
            = (JObj [], logger l m (next_tick (emit (Http (sync_request H st)) st)))"
  using assms
  by (auto simp: returned_cursor_def sync_events_def http_call_def sync_except_def
      split: http_outcome.splits outcome.splits if_splits)

lemma loop_body_failure:
  assumes "returned_cursor (http H (tick st)) = None"
  shows "\<exists>l m. loop_body H st
            = (Done (), sleep 100 (logger l m (next_tick (emit (Http (sync_request H st)) st))))"
proof -
  from sync_events_failure [OF assms] obtain l m where
    "sync_events H st = (JObj [], logger l m (next_tick (emit (Http (sync_request H st)) st)))"
    by blast
  then have "loop_body H st
      = (Done (), sleep 100 (logger l m (next_tick (emit (Http (sync_request H st)) st))))"
    by (simp add: loop_body_def)
  then show ?thesis by blast
qed

lemma loop_iteration_failure:
  assumes "returned_cursor (http H (tick st)) = None"
  shows "\<exists>l m. loop_iteration H st
            = sleep 100 (logger l m (next_tick (emit (Http (sync_request H st)) st)))"
proof -
  from loop_body_failure [OF assms] obtain l m where
    "loop_body H st
       = (Done (), sleep 100 (logger l m (next_tick (emit (Http (sync_request H st)) st))))"
    by blast
  then have "loop_iteration H st
      = sleep 100 (logger l m (next_tick (emit (Http (sync_request H st)) st)))"
    by (simp add: loop_iteration_def)
  then show ?thesis by blast
qed

lemma loop_body_success:
  assumes "returned_cursor (http H (tick st)) = Some c"
  shows "\<exists>data st1. sync_events H st = (data, st1) \<and> py_truthy data \<and> sync_token st1 = c
           \<and> loop_body H st
               = (case process_events H data st1 of
                    (Done u, st2) \<Rightarrow> (Done (), sleep 100 st2)
                  | (Thrown e, st2) \<Rightarrow>
                      (Done (), sleep 5000 (logger ERROR ''Sync loop error'' st2))
                  | (Never_returns, st2) \<Rightarrow> (Never_returns, st2))"
proof -
  from sync_events_success [OF assms] obtain data where
    d: "sync_events H st
          = (data, (next_tick (emit (Http (sync_request H st)) st))\<lparr>sync_token := c\<rparr>)"
    and t: "py_truthy data"
    by blast
  show ?thesis
    using d t by (simp add: loop_body_def)
qed

lemma running_sync_events: "running (snd (sync_events H st)) = running st"
  by (cases "returned_cursor (http H (tick st))")
     (use sync_events_failure [of H st] sync_events_success [of H st] in
       \<open>auto simp: next_tick_def emit_def logger_def\<close>)

lemma loop_body_effect_free:
  assumes "effect_free H"
  shows "fst (loop_body H st) = Done ()"
    and "session_of (loop_iteration H st) = session_of (snd (sync_events H st))"
proof -
  obtain data st1 where se: "sync_events H st = (data, st1)"
    by (cases "sync_events H st")
  obtain r st2 where pe: "process_events H data st1 = (r, st2)"
    by (cases "process_events H data st1")
  from process_events_effect_free [OF assms, of data st1] pe
  have s: "session_of st2 = session_of st1" and n: "r \<noteq> Never_returns"
    by simp_all
  show "fst (loop_body H st) = Done ()"
    using se pe n by (cases r) (simp_all add: loop_body_def)
  show "session_of (loop_iteration H st) = session_of (snd (sync_events H st))"
    using se pe n s by (cases r) (simp_all add: loop_iteration_def loop_body_def)
qed

lemma running_loop_iteration:
  assumes "effect_free H"
  shows "running (loop_iteration H st) = running st"
  using session_running [OF loop_body_effect_free(2) [OF assms, of st]]
    running_sync_events [of H st]
  by simp

lemma sync_loop_step:
  assumes "effect_free H" and "running st"
  shows "sync_loop H (Suc n) st = sync_loop H n (loop_iteration H st)"
proof -
  obtain r st1 where h: "loop_body H st = (r, st1)"
    by (cases "loop_body H st")
  from loop_body_effect_free(1) [OF assms(1), of st] h have "r = Done ()"
    by simp
  then show ?thesis
    using h assms(2) by (simp add: loop_iteration_def)
qed

lemma sync_loop_snoc:
  assumes "effect_free H"
  shows "running st \<Longrightarrow> sync_loop H (Suc n) st = loop_iteration H (sync_loop H n st)"
proof (induction n arbitrary: st)
  case 0
  then show ?case using sync_loop_step [OF assms, of st 0] by simp
next
  case (Suc n)
  from Suc.prems have r: "running (loop_iteration H st)"
    by (simp add: running_loop_iteration [OF assms])
  have "sync_loop H (Suc (Suc n)) st = sync_loop H (Suc n) (loop_iteration H st)"
    using Suc.prems by (rule sync_loop_step [OF assms])
  also have "\<dots> = loop_iteration H (sync_loop H n (loop_iteration H st))"
    by (rule Suc.IH [OF r])
  also have "sync_loop H n (loop_iteration H st) = sync_loop H (Suc n) st"
    using Suc.prems by (rule sync_loop_step [OF assms, symmetric])
  finally show ?case .
qed

lemma poll_failed_iff: "poll_failed r \<longleftrightarrow> returned_cursor r = None"
  by (auto simp: poll_failed_def returned_cursor_def split: http_outcome.splits outcome.splits)

text \<open>
  Claim C10. A poll that fails, whether by an exception of the request (a timeout or a
  transport failure), a status other than 200, a body that does not decode or a body
  without \<^verbatim>\<open>next_batch\<close>, returns the empty dict and leaves the cursor as it was, also
  at the end of the loop iteration. The cursor field is rewritten only by a successful
  poll, to the cursor that poll carries.
\<close>

theorem failed_poll_keeps_cursor:
  "(poll_failed (http H (tick st)) \<longrightarrow>
      fst (sync_events H st) = JObj []
      \<and> sync_token (snd (sync_events H st)) = sync_token st
      \<and> sync_token (loop_iteration H st) = sync_token st)
   \<and> (\<not> poll_failed (http H (tick st)) \<longrightarrow>
        returned_cursor (http H (tick st)) = Some (sync_token (snd (sync_events H st))))"
proof (intro conjI impI)
  assume f: "poll_failed (http H (tick st))"
  then have n: "returned_cursor (http H (tick st)) = None"
    by (simp add: poll_failed_iff)
  from sync_events_failure [OF n] obtain l m where
    se: "sync_events H st = (JObj [], logger l m (next_tick (emit (Http (sync_request H st)) st)))"
    by blast
  show "fst (sync_events H st) = JObj []" using se by simp
  show "sync_token (snd (sync_events H st)) = sync_token st"
    using se by (simp add: logger_def emit_def next_tick_def)
  from loop_iteration_failure [OF n] obtain l' m' where
    "loop_iteration H st
       = sleep 100 (logger l' m' (next_tick (emit (Http (sync_request H st)) st)))"
    by blast
  then show "sync_token (loop_iteration H st) = sync_token st"
    by (simp add: sleep_def logger_def emit_def next_tick_def)
next
  assume "\<not> poll_failed (http H (tick st))"
  then obtain c where c: "returned_cursor (http H (tick st)) = Some c"
    by (auto simp: poll_failed_iff)
  from sync_events_success [OF c] show
    "returned_cursor (http H (tick st)) = Some (sync_token (snd (sync_events H st)))"
    using c by auto
qed

theorem failed_poll_keeps_cursor_witness:
  "poll_failed (http timeout_host (tick (started_bot\<lparr>sync_token := JStr ''s1''\<rparr>)))
   \<and> fst (sync_events timeout_host (started_bot\<lparr>sync_token := JStr ''s1''\<rparr>)) = JObj []
   \<and> sync_token (snd (sync_events timeout_host (started_bot\<lparr>sync_token := JStr ''s1''\<rparr>)))
       = JStr ''s1''
   \<and> sync_token (loop_iteration timeout_host (started_bot\<lparr>sync_token := JStr ''s1''\<rparr>))
       = JStr ''s1''"
proof -
  let ?st = "started_bot\<lparr>sync_token := JStr ''s1''\<rparr>"
  have h: "poll_failed (http timeout_host (tick ?st))"
    by (simp add: poll_failed_def timeout_host_def scripted_host_def started_bot_def new_bot_def)
  have t: "sync_token ?st = JStr ''s1''" by simp
  from failed_poll_keeps_cursor [of timeout_host ?st, THEN conjunct1, THEN mp, OF h] h t
  show ?thesis by simp
qed

lemma since_param:
  "map_of (params (sync_request H st)) ''since''
     = (if py_truthy (sync_token st) then Some (sync_token st) else None)"
  by (simp add: sync_request_def sync_params_def)

text \<open>
  Claim C1, as stated, fails when the server returns an empty cursor: the poll
  succeeds with \<^verbatim>\<open>next_batch\<close> the empty string, the field holds it, and the request
  of the next round carries no \<^verbatim>\<open>since\<close> parameter at all
  (\<^verbatim>\<open>if self.sync_token:\<close> is false for the empty string).
\<close>

theorem empty_cursor_not_presented:
  "returned_cursor (http empty_cursor_host (tick started_bot)) = Some (JStr [])
   \<and> map_of (params (sync_request empty_cursor_host
                      (sync_loop empty_cursor_host (Suc 0) started_bot))) ''since'' = None"
proof -
  have e: "effect_free empty_cursor_host"
    by (simp add: empty_cursor_host_def scripted_effect_free)
  have c: "returned_cursor (http empty_cursor_host (tick started_bot)) = Some (JStr [])"
    by (simp add: returned_cursor_def empty_cursor_host_def scripted_host_def started_bot_def
        new_bot_def)
  from sync_events_success [OF c]
  have "sync_token (snd (sync_events empty_cursor_host started_bot)) = JStr []"
    by auto
  then have "sync_token (loop_iteration empty_cursor_host started_bot) = JStr []"
    using session_sync_token [OF loop_body_effect_free(2) [OF e, of started_bot]]
    by simp
  moreover have "running started_bot" by (simp add: started_bot_def)
  ultimately show ?thesis
    using c sync_loop_step [OF e, of started_bot 0] by (simp add: since_param)
qed

text \<open>
  The calculator can stand between two rounds as well. The poll returns the cursor
  \<^verbatim>\<open>s1\<close> with a batch in which a user sends
  \<^verbatim>\<open>!calc setattr(self, 'sync_token', 'evil')\<close>; the expression is evaluated while the
  batch is processed, and the next round presents \<^verbatim>\<open>evil\<close>.
\<close>

lemma calculator_rewrites_cursor:
  "returned_cursor (http cursor_rewriting_host (tick started_bot)) = Some (JStr ''s1'')
   \<and> sync_token (sync_loop cursor_rewriting_host (Suc 0) started_bot) = JStr ''evil''
   \<and> map_of (params (sync_request cursor_rewriting_host
                      (sync_loop cursor_rewriting_host (Suc 0) started_bot))) ''since''
       = Some (JStr ''evil'')"
proof -
  let ?H = "cursor_rewriting_host"
  let ?cmd = "''!calc '' @ set_cursor"
  have h0: "http ?H (tick started_bot) = Response 200 (Returned cursor_batch)"
    by (simp add: cursor_rewriting_host_def rewriting_host_def scripted_host_def
        started_bot_def new_bot_def)
  have nb: "subscript cursor_batch ''next_batch'' = Returned (JStr ''s1'')"
    by (simp add: cursor_batch_def batch_of_def)
  have c: "returned_cursor (http ?H (tick started_bot)) = Some (JStr ''s1'')"
    by (simp add: h0 nb returned_cursor_def)
  let ?st1 = "(next_tick (emit (Http (sync_request ?H started_bot)) started_bot))
                \<lparr>sync_token := JStr ''s1''\<rparr>"
  have se: "sync_events ?H started_bot = (cursor_batch, ?st1)"
    by (simp add: sync_events_def http_call_def h0 nb)
  have tr: "py_truthy cursor_batch"
    by (simp add: cursor_batch_def batch_of_def)
  have u: "\<not> py_eq (JStr alice) (user_id ?st1)"
    by (simp add: started_bot_def new_bot_def alice_def next_tick_def emit_def)
  have sw: "starts_with ''!'' ?cmd" by simp
  let ?st2 = "snd (send_message ?H (JStr ''!a:localhost'') (calc_result set_cursor ''None'')
                     ((handler_entry ''!a:localhost'' ?cmd (JStr alice)
                         (logger INFO ''Received message'' ?st1))
                        \<lparr>sync_token := JStr ''evil''\<rparr>))"
  have hm: "handle_message_event ?H ''!a:localhost'' (message_event alice ?cmd) ?st1
      = (Done (), ?st2)"
    unfolding handle_message_event_command [OF u sw]
    unfolding cursor_rewriting_host_def
    by (rule rewriting_command(1))
  have pe: "process_events ?H cursor_batch ?st1 = (Done (), ?st2)"
    unfolding cursor_batch_def process_events_one_room
    by (simp only: list.map prod.case handle_events_message hm completion.case
        handle_events.simps(1))
  have s2: "session_of ?st2
      = session_of ((handler_entry ''!a:localhost'' ?cmd (JStr alice)
                       (logger INFO ''Received message'' ?st1))\<lparr>sync_token := JStr ''evil''\<rparr>)"
    by (rule session_send_message)
  have tok: "sync_token ?st2 = JStr ''evil''"
    using session_sync_token [OF s2] by simp
  have run: "running ?st2"
    using session_running [OF s2]
    by (simp add: handler_entry_def emit_def logger_def next_tick_def started_bot_def)
  have r: "running started_bot" by (simp add: started_bot_def)
  have "sync_loop ?H (Suc 0) started_bot = sleep 100 ?st2"
    using r se tr pe by (simp add: loop_body_def)
  then have "sync_token (sync_loop ?H (Suc 0) started_bot) = JStr ''evil''"
    using tok by (simp add: sleep_def emit_def)
  then show ?thesis
    using c by (simp add: since_param del: sync_loop.simps)
qed

text \<open>
  Claim C1, amended. When the poll of a round returns a cursor \<open>c\<close>, the field is
  \<open>c\<close> in the state that is handed to \<^verbatim>\<open>process_events\<close> with the batch: the cursor is
  advanced before the hand-over. Provided that no expression evaluated by the
  calculator changes the bot object or fails to return, the rounds follow one another,
  the field at the start of round \<open>n + 1\<close> is the cursor \<open>c\<close> that round \<open>n\<close>
  returned, and the request of round \<open>n + 1\<close> presents it as \<^verbatim>\<open>since\<close> when \<open>c\<close> is
  truthy (a non-empty string) and presents no cursor otherwise.
\<close>

theorem cursor_advances_before_dispatch:
  assumes "running st"
    and "returned_cursor (http H (tick (sync_loop H n st))) = Some c"
  shows "(\<exists>data st1.
            sync_events H (sync_loop H n st) = (data, st1) \<and> sync_token st1 = c
            \<and> loop_body H (sync_loop H n st)
                = (case process_events H data st1 of
                     (Done u, st2) \<Rightarrow> (Done (), sleep 100 st2)
                   | (Thrown e, st2) \<Rightarrow>
                       (Done (), sleep 5000 (logger ERROR ''Sync loop error'' st2))
                   | (Never_returns, st2) \<Rightarrow> (Never_returns, st2)))
    \<and> (effect_free H \<longrightarrow>
          sync_loop H (Suc n) st = loop_iteration H (sync_loop H n st)
          \<and> sync_token (sync_loop H (Suc n) st) = c
          \<and> map_of (params (sync_request H (sync_loop H (Suc n) st))) ''since''
              = (if py_truthy c then Some c else None))"
proof (intro conjI impI)
  let ?s = "sync_loop H n st"
  from loop_body_success [OF assms(2)] obtain data st1 where
    se: "sync_events H ?s = (data, st1)" and tok: "sync_token st1 = c"
    and lb: "loop_body H ?s
               = (case process_events H data st1 of
                    (Done u, st2) \<Rightarrow> (Done (), sleep 100 st2)
                  | (Thrown e, st2) \<Rightarrow>
                      (Done (), sleep 5000 (logger ERROR ''Sync loop error'' st2))
                  | (Never_returns, st2) \<Rightarrow> (Never_returns, st2))"
    by blast
  then show "\<exists>data st1.
      sync_events H ?s = (data, st1) \<and> sync_token st1 = c
      \<and> loop_body H ?s
          = (case process_events H data st1 of
               (Done u, st2) \<Rightarrow> (Done (), sleep 100 st2)
             | (Thrown e, st2) \<Rightarrow>
                 (Done (), sleep 5000 (logger ERROR ''Sync loop error'' st2))
             | (Never_returns, st2) \<Rightarrow> (Never_returns, st2))"
    by blast
  assume e: "effect_free H"
  show step: "sync_loop H (Suc n) st = loop_iteration H ?s"
    using assms(1) by (rule sync_loop_snoc [OF e])
  have "sync_token (loop_iteration H ?s) = sync_token (snd (sync_events H ?s))"
    using session_sync_token [OF loop_body_effect_free(2) [OF e, of ?s]] .
  then show cur: "sync_token (sync_loop H (Suc n) st) = c"
    using se tok step by simp
  show "map_of (params (sync_request H (sync_loop H (Suc n) st))) ''since''
      = (if py_truthy c then Some c else None)"
    using cur by (simp add: since_param del: sync_loop.simps)
qed

theorem cursor_advances_before_dispatch_witness:
  "running started_bot
   \<and> returned_cursor (http cursor_host (tick (sync_loop cursor_host 0 started_bot)))
       = Some (JStr ''s1'')
   \<and> effect_free cursor_host
   \<and> sync_token (sync_loop cursor_host (Suc 0) started_bot) = JStr ''s1''
   \<and> map_of (params (sync_request cursor_host (sync_loop cursor_host (Suc 0) started_bot)))
        ''since'' = Some (JStr ''s1'')"
proof -
  have r: "running started_bot" by (simp add: started_bot_def)
  have c: "returned_cursor (http cursor_host (tick (sync_loop cursor_host 0 started_bot)))
             = Some (JStr ''s1'')"
    by (simp add: returned_cursor_def cursor_host_def scripted_host_def started_bot_def
        new_bot_def)
  have e: "effect_free cursor_host"
    by (simp add: cursor_host_def effect_free_def scripted_host_def)
  from cursor_advances_before_dispatch [OF r c, THEN conjunct2, THEN mp, OF e, THEN conjunct2]
    r c e
  show ?thesis
    by (simp del: sync_loop.simps)
qed

lemma loop_iteration_cool_down:
  "last (trace (loop_iteration H st)) = Sleep 5000 \<longleftrightarrow>
     (\<exists>data st1 e st2. sync_events H st = (data, st1) \<and> py_truthy data
         \<and> process_events H data st1 = (Thrown e, st2))"
proof -
  obtain data st1 where se: "sync_events H st = (data, st1)"
    by (cases "sync_events H st")
  obtain r st2 where pe: "process_events H data st1 = (r, st2)"
    by (cases "process_events H data st1")
  show ?thesis
  proof (cases "py_truthy data")
    case False
    then show ?thesis
      using se by (simp add: loop_iteration_def loop_body_def trace_sleep)
  next
    case True
    show ?thesis
    proof (cases r)
      case (Done u)
      then show ?thesis
        using se pe True by (simp add: loop_iteration_def loop_body_def trace_sleep)
    next
      case (Thrown e)
      then show ?thesis
        using se pe True by (simp add: loop_iteration_def loop_body_def trace_sleep)
    next
      case Never_returns
      from process_events_stops [of H data st1 st2] pe Never_returns
      obtain pre room c s where "trace st2 = pre @ [Dispatch room c s]"
        by auto
      then show ?thesis
        using se pe True Never_returns by (simp add: loop_iteration_def loop_body_def)
    qed
  qed
qed

text \<open>
  Claim C6, as stated, fails: a transport error during the poll is caught inside
  \<^verbatim>\<open>sync_events\<close>, which returns the empty dict, and the loop goes on to its ordinary
  pause of 0.1 seconds; the 5 second delay is not taken.
\<close>

theorem transport_error_short_pause:
  "http broken_host (tick started_bot) = Failed ClientError
   \<and> trace (loop_iteration broken_host started_bot)
       = [Http (sync_request broken_host started_bot), Log ERROR ''Sync error'', Sleep 100]"
  by (simp add: loop_iteration_def loop_body_def sync_events_def http_call_def sync_except_def
      broken_host_def scripted_host_def started_bot_def new_bot_def
      next_tick_def emit_def logger_def sleep_def)

text \<open>
  Claim C6, amended. Every failed poll (a request timeout, a transport or protocol
  error, a status other than 200) is absorbed by \<^verbatim>\<open>sync_events\<close> and followed by the
  same pause of 0.1 seconds before the next poll; a timeout is logged at debug level,
  another exception at error level. The delay of 5 seconds is taken exactly when the
  poll succeeded and the processing of its batch raised an exception.
\<close>

theorem failed_polls_share_pause:
  "(poll_failed (http H (tick st)) \<longrightarrow>
      (\<exists>l m. trace (loop_iteration H st)
                = trace st @ [Http (sync_request H st), Log l m, Sleep 100]))
   \<and> (http H (tick st) = Failed TimeoutError \<longrightarrow>
        trace (loop_iteration H st)
          = trace st @ [Http (sync_request H st), Log DEBUG ''Sync timeout (normal)'', Sleep 100])
   \<and> (\<forall>e. e \<noteq> TimeoutError \<and> http H (tick st) = Failed e \<longrightarrow>
        trace (loop_iteration H st)
          = trace st @ [Http (sync_request H st), Log ERROR ''Sync error'', Sleep 100])
   \<and> (last (trace (loop_iteration H st)) = Sleep 5000 \<longleftrightarrow>
        (\<exists>data st1 e st2. sync_events H st = (data, st1) \<and> py_truthy data
            \<and> process_events H data st1 = (Thrown e, st2)))"
proof (intro conjI impI allI)
  assume "poll_failed (http H (tick st))"
  then have "returned_cursor (http H (tick st)) = None"
    by (simp add: poll_failed_iff)
  from loop_iteration_failure [OF this] obtain l m where
    "loop_iteration H st = sleep 100 (logger l m (next_tick (emit (Http (sync_request H st)) st)))"
    by blast
  then have "trace (loop_iteration H st)
      = trace st @ [Http (sync_request H st), Log l m, Sleep 100]"
    by (simp add: trace_sleep trace_logger next_tick_def emit_def)
  then show "\<exists>l m. trace (loop_iteration H st)
      = trace st @ [Http (sync_request H st), Log l m, Sleep 100]"
    by blast
next
  assume "http H (tick st) = Failed TimeoutError"
  then show "trace (loop_iteration H st)
      = trace st @ [Http (sync_request H st), Log DEBUG ''Sync timeout (normal)'', Sleep 100]"
    by (simp add: loop_iteration_def loop_body_def sync_events_def http_call_def sync_except_def
        trace_sleep trace_logger next_tick_def emit_def)
next
  fix e
  assume "e \<noteq> TimeoutError \<and> http H (tick st) = Failed e"
  then show "trace (loop_iteration H st)
      = trace st @ [Http (sync_request H st), Log ERROR ''Sync error'', Sleep 100]"
    by (simp add: loop_iteration_def loop_body_def sync_events_def http_call_def sync_except_def
        trace_sleep trace_logger next_tick_def emit_def)
next
  show "last (trace (loop_iteration H st)) = Sleep 5000 \<longleftrightarrow>
        (\<exists>data st1 e st2. sync_events H st = (data, st1) \<and> py_truthy data
            \<and> process_events H data st1 = (Thrown e, st2))"
    by (rule loop_iteration_cool_down)
qed

theorem failed_polls_share_pause_witness:
  "poll_failed (http timeout_host (tick started_bot))
   \<and> http timeout_host (tick started_bot) = Failed TimeoutError
   \<and> trace (loop_iteration timeout_host started_bot)
       = [Http (sync_request timeout_host started_bot),
          Log DEBUG ''Sync timeout (normal)'', Sleep 100]
   \<and> last (trace (loop_iteration raising_host started_bot)) = Sleep 5000"
proof -
  have h: "http timeout_host (tick started_bot) = Failed TimeoutError"
    by (simp add: timeout_host_def scripted_host_def started_bot_def new_bot_def)
  have p: "poll_failed (http timeout_host (tick started_bot))"
    by (simp add: h poll_failed_def)
  have t: "trace started_bot = []"
    by (simp add: started_bot_def new_bot_def)
  have se: "sync_events raising_host started_bot
      = (raising_batch,
         (next_tick (emit (Http (sync_request raising_host started_bot)) started_bot))
           \<lparr>sync_token := JStr ''s1''\<rparr>)"
    by (simp add: sync_events_def http_call_def raising_host_def scripted_host_def
        started_bot_def new_bot_def raising_batch_def)
  have pe: "\<And>s. process_events raising_host raising_batch s = (Thrown AttributeError, s)"
    by (simp add: process_events_def raising_batch_def)
  have tr: "py_truthy raising_batch" by (simp add: raising_batch_def)
  from failed_polls_share_pause [of timeout_host started_bot, THEN conjunct2, THEN conjunct1,
      THEN mp, OF h]
    failed_polls_share_pause [of raising_host started_bot, THEN conjunct2, THEN conjunct2,
      THEN conjunct2]
    se pe tr
  show ?thesis using h p t by auto
qed

subsection \<open>Session establishment\<close>

lemma store_session_granted:
  assumes "granted (Response 200 (Returned data)) = Some (tok, uid, dev)"
  shows "store_session data st
     = (Returned (), st\<lparr>access_token := tok, user_id := uid, device_id := dev\<rparr>)"
  using assms
  by (simp add: granted_def store_session_def Let_def split: outcome.splits)

lemma store_session_refused:
  assumes "granted (Response 200 (Returned data)) = None"
  shows "\<exists>e st'. store_session data st = (Raised e, st') \<and> trace st' = trace st
           \<and> tick st' = tick st"
  using assms
  by (simp add: granted_def store_session_def Let_def split: outcome.splits)

lemma login_bot_granted:
  assumes "granted (http H (tick st)) = Some (tok, uid, dev)"
  shows "login_bot H st
     = (True, logger INFO ''Bot logged in successfully''
                ((next_tick (emit (Http login_request) st))
                   \<lparr>access_token := tok, user_id := uid, device_id := dev\<rparr>))"
proof -
  from assms obtain data where r: "http H (tick st) = Response 200 (Returned data)"
    by (auto simp: granted_def split: http_outcome.splits outcome.splits if_splits)
  from store_session_granted [of data tok uid dev] assms r show ?thesis
    by (simp add: login_bot_def http_call_def)
qed

lemma login_bot_refused:
  assumes "granted (http H (tick st)) = None"
  shows "\<not> fst (login_bot H st)"
    and "\<exists>m. trace (snd (login_bot H st)) = trace st @ [Http login_request, Log ERROR m]"
    and "tick (snd (login_bot H st)) = Suc (tick st)"
proof -
  have "\<not> fst (login_bot H st)
      \<and> (\<exists>m. trace (snd (login_bot H st)) = trace st @ [Http login_request, Log ERROR m])
      \<and> tick (snd (login_bot H st)) = Suc (tick st)"
  proof (cases "http H (tick st)")
    case (Failed e)
    then show ?thesis
      by (simp add: login_bot_def http_call_def trace_logger trace_emit next_tick_def)
  next
    case (Response status decoded)
    show ?thesis
    proof (cases decoded)
      case (Raised e)
      then show ?thesis using Response
        by (simp add: login_bot_def http_call_def trace_logger trace_emit next_tick_def)
    next
      case (Returned data)
      show ?thesis
      proof (cases "status = 200")
        case False
        then show ?thesis using Response Returned
          by (simp add: login_bot_def http_call_def trace_logger trace_emit next_tick_def)
      next
        case True
        from store_session_refused [of data "next_tick (emit (Http login_request) st)"]
          assms Response Returned True
        obtain e st' where
          "store_session data (next_tick (emit (Http login_request) st)) = (Raised e, st')"
          "trace st' = trace st @ [Http login_request]" "tick st' = Suc (tick st)"
          by (auto simp: trace_emit next_tick_def)
        then show ?thesis using Response Returned True
          by (simp add: login_bot_def http_call_def trace_logger)
      qed
    qed
  qed
  then show "\<not> fst (login_bot H st)"
    and "\<exists>m. trace (snd (login_bot H st)) = trace st @ [Http login_request, Log ERROR m]"
    and "tick (snd (login_bot H st)) = Suc (tick st)"
    by simp_all
qed

lemma register_bot_granted:
  assumes "granted (http H (tick st)) = Some (tok, uid, dev)"
  shows "register_bot H st
     = (True, logger INFO ''Bot registered successfully''
                ((next_tick (emit (Http register_request) st))
                   \<lparr>access_token := tok, user_id := uid, device_id := dev\<rparr>))"
proof -
  from assms obtain data where r: "http H (tick st) = Response 200 (Returned data)"
    by (auto simp: granted_def split: http_outcome.splits outcome.splits if_splits)
  from store_session_granted [of data tok uid dev] assms r show ?thesis
    by (simp add: register_bot_def http_call_def)
qed

lemma register_bot_refused:
  assumes "granted (http H (tick st)) = None" and "\<not> user_in_use (http H (tick st))"
  shows "\<not> fst (register_bot H st)"
    and "\<exists>m. trace (snd (register_bot H st)) = trace st @ [Http register_request, Log ERROR m]"
proof -
  have "\<not> fst (register_bot H st)
      \<and> (\<exists>m. trace (snd (register_bot H st))
                = trace st @ [Http register_request, Log ERROR m])"
  proof (cases "http H (tick st)")
    case (Failed e)
    then show ?thesis
      by (simp add: register_bot_def http_call_def trace_logger trace_emit next_tick_def)
  next
    case (Response status decoded)
    show ?thesis
    proof (cases decoded)
      case (Raised e)
      then show ?thesis using Response
        by (simp add: register_bot_def http_call_def trace_logger trace_emit next_tick_def)
    next
      case (Returned data)
      show ?thesis
      proof (cases "status = 200")
        case False
        then show ?thesis using Response Returned assms(2)
          by (simp add: register_bot_def http_call_def user_in_use_def trace_logger trace_emit
              next_tick_def split: outcome.splits)
      next
        case True
        from store_session_refused [of data "next_tick (emit (Http register_request) st)"]
          assms(1) Response Returned True
        obtain e st' where
          "store_session data (next_tick (emit (Http register_request) st)) = (Raised e, st')"
          "trace st' = trace st @ [Http register_request]"
          by (auto simp: trace_emit next_tick_def)
        then show ?thesis using Response Returned True
          by (simp add: register_bot_def http_call_def trace_logger)
      qed
    qed
  qed
  then show "\<not> fst (register_bot H st)"
    and "\<exists>m. trace (snd (register_bot H st)) = trace st @ [Http register_request, Log ERROR m]"
    by simp_all
qed

lemma register_bot_fallback:
  assumes "user_in_use (http H (tick st))"
  shows "register_bot H st
     = login_bot H (logger INFO ''Bot user already exists, attempting login...''
                      (next_tick (emit (Http register_request) st)))"
  using assms
  by (auto simp: register_bot_def http_call_def user_in_use_def
      split: http_outcome.splits outcome.splits)

lemma run_aborts_unregistered:
  assumes "\<not> fst (register_bot H (logger INFO start_line st))"
  shows "run H n st
     = logger ERROR ''Failed to register/login bot''
         (snd (register_bot H (logger INFO start_line st)))"
  using assms
  by (simp add: run_def startup_def start_line_def split_beta)

text \<open>
  Claim C4. When the registration reply reports the identity as taken (a status other
  than 200 whose body carries the error code \<^verbatim>\<open>M_USER_IN_USE\<close>), \<^verbatim>\<open>register_bot\<close> logs
  this and is the login that follows: it sends the login request, which names the same
  user and password as the registration request, and when the reply to it grants a
  session it stores the credential, the identity and the device of that reply, the
  same three fields that a granted registration stores, and returns \<^verbatim>\<open>True\<close>. When
  the login is refused, \<^verbatim>\<open>register_bot\<close> returns \<^verbatim>\<open>False\<close> after that one login
  request. In every other case registration makes its one request and succeeds exactly
  when the reply grants a session. A login likewise makes one request, with no retry.
  When registration (with or without the login) fails, \<^verbatim>\<open>run\<close> logs the failure and
  returns: no further request, no loop.
\<close>

theorem register_falls_back_to_login:
  "(user_in_use (http H (tick st)) \<longrightarrow>
      register_bot H st
        = login_bot H (logger INFO ''Bot user already exists, attempting login...''
                         (next_tick (emit (Http register_request) st)))
      \<and> (\<forall>tok uid dev.
            granted (http H (Suc (tick st))) = Some (tok, uid, dev) \<longrightarrow>
              register_bot H st
                = (True, logger INFO ''Bot logged in successfully''
                           ((next_tick (emit (Http login_request)
                               (logger INFO ''Bot user already exists, attempting login...''
                                  (next_tick (emit (Http register_request) st)))))
                              \<lparr>access_token := tok, user_id := uid, device_id := dev\<rparr>))
              \<and> trace (snd (register_bot H st))
                  = trace st @ [Http register_request,
                                Log INFO ''Bot user already exists, attempting login...'',
                                Http login_request,
                                Log INFO ''Bot logged in successfully''])
      \<and> (granted (http H (Suc (tick st))) = None \<longrightarrow>
            \<not> fst (register_bot H st)
            \<and> (\<exists>m. trace (snd (register_bot H st))
                      = trace st @ [Http register_request,
                                    Log INFO ''Bot user already exists, attempting login...'',
                                    Http login_request,
                                    Log ERROR m])))
   \<and> (\<not> user_in_use (http H (tick st)) \<longrightarrow>
        (\<forall>tok uid dev.
            granted (http H (tick st)) = Some (tok, uid, dev) \<longrightarrow>
              register_bot H st
                = (True, logger INFO ''Bot registered successfully''
                           ((next_tick (emit (Http register_request) st))
                              \<lparr>access_token := tok, user_id := uid, device_id := dev\<rparr>)))
        \<and> (granted (http H (tick st)) = None \<longrightarrow>
              \<not> fst (register_bot H st)
              \<and> (\<exists>m. trace (snd (register_bot H st))
                        = trace st @ [Http register_request, Log ERROR m])))
   \<and> (\<forall>tok uid dev.
          granted (http H (tick st)) = Some (tok, uid, dev) \<longrightarrow>
            login_bot H st
              = (True, logger INFO ''Bot logged in successfully''
                         ((next_tick (emit (Http login_request) st))
                            \<lparr>access_token := tok, user_id := uid, device_id := dev\<rparr>)))
   \<and> (granted (http H (tick st)) = None \<longrightarrow>
          \<not> fst (login_bot H st)
          \<and> (\<exists>m. trace (snd (login_bot H st)) = trace st @ [Http login_request, Log ERROR m]))
   \<and> (\<not> fst (register_bot H (logger INFO start_line st)) \<longrightarrow>
        run H n st
          = logger ERROR ''Failed to register/login bot''
              (snd (register_bot H (logger INFO start_line st))))
   \<and> body register_request
        = Some (JObj [(''username'', JStr BOT_USERNAME), (''password'', JStr BOT_PASSWORD),
                      (''auth'', JObj [(''type'', JStr ''m.login.dummy'')])])
   \<and> body login_request
        = Some (JObj [(''type'', JStr ''m.login.password''), (''user'', JStr BOT_USERNAME),
                      (''password'', JStr BOT_PASSWORD)])"
proof -
  let ?st1 = "logger INFO ''Bot user already exists, attempting login...''
                (next_tick (emit (Http register_request) st))"
  have t1: "tick ?st1 = Suc (tick st)" by simp
  have tr1: "trace ?st1
      = trace st @ [Http register_request,
                    Log INFO ''Bot user already exists, attempting login...'']"
    by (simp add: trace_logger trace_emit next_tick_def)
  have a: "register_bot H st = login_bot H ?st1"
    if "user_in_use (http H (tick st))"
    using that by (rule register_bot_fallback)
  have b: "register_bot H st
        = (True, logger INFO ''Bot logged in successfully''
                   ((next_tick (emit (Http login_request) ?st1))
                      \<lparr>access_token := tok, user_id := uid, device_id := dev\<rparr>))
      \<and> trace (snd (register_bot H st))
          = trace st @ [Http register_request,
                        Log INFO ''Bot user already exists, attempting login...'',
                        Http login_request,
                        Log INFO ''Bot logged in successfully'']"
    if "user_in_use (http H (tick st))"
      and "granted (http H (Suc (tick st))) = Some (tok, uid, dev)" for tok uid dev
  proof -
    from that(2) have "granted (http H (tick ?st1)) = Some (tok, uid, dev)"
      by (simp only: t1)
    from login_bot_granted [OF this] a [OF that(1)]
    have eq: "register_bot H st
        = (True, logger INFO ''Bot logged in successfully''
                   ((next_tick (emit (Http login_request) ?st1))
                      \<lparr>access_token := tok, user_id := uid, device_id := dev\<rparr>))"
      by simp
    have "trace (logger INFO ''Bot logged in successfully''
                   ((next_tick (emit (Http login_request) ?st1))
                      \<lparr>access_token := tok, user_id := uid, device_id := dev\<rparr>))
        = trace ?st1 @ [Http login_request, Log INFO ''Bot logged in successfully'']"
      by (simp add: trace_logger trace_emit next_tick_def)
    then show ?thesis
      using eq tr1 by simp
  qed
  have c: "\<not> fst (register_bot H st)
      \<and> (\<exists>m. trace (snd (register_bot H st))
                = trace st @ [Http register_request,
                              Log INFO ''Bot user already exists, attempting login...'',
                              Http login_request,
                              Log ERROR m])"
    if "user_in_use (http H (tick st))" and "granted (http H (Suc (tick st))) = None"
  proof -
    from that(2) have g: "granted (http H (tick ?st1)) = None"
      by (simp only: t1)
    from login_bot_refused(2) [OF g] obtain m where
      "trace (snd (login_bot H ?st1)) = trace ?st1 @ [Http login_request, Log ERROR m]"
      by blast
    then have "trace (snd (register_bot H st))
        = trace st @ [Http register_request,
                      Log INFO ''Bot user already exists, attempting login...'',
                      Http login_request,
                      Log ERROR m]"
      using a [OF that(1)] tr1 by simp
    then show ?thesis
      using login_bot_refused(1) [OF g] a [OF that(1)] by auto
  qed
  have d: "body register_request
        = Some (JObj [(''username'', JStr BOT_USERNAME), (''password'', JStr BOT_PASSWORD),
                      (''auth'', JObj [(''type'', JStr ''m.login.dummy'')])])"
    "body login_request
        = Some (JObj [(''type'', JStr ''m.login.password''), (''user'', JStr BOT_USERNAME),
                      (''password'', JStr BOT_PASSWORD)])"
    by (simp_all add: register_request_def login_request_def)
  show ?thesis
    using a b c d register_bot_granted [of H st] register_bot_refused [of H st]
      login_bot_granted [of H st] login_bot_refused(1,2) [of H st]
      run_aborts_unregistered [of H st n]
    by (intro conjI impI allI) blast+
qed

theorem register_falls_back_to_login_witness:
  "user_in_use (http fallback_host (tick new_bot))
   \<and> granted (http fallback_host (Suc (tick new_bot)))
       = Some (JStr ''token'', JStr ''@demo_ai_bot:localhost'', JStr ''DEV'')
   \<and> fst (register_bot fallback_host new_bot)
   \<and> access_token (snd (register_bot fallback_host new_bot)) = JStr ''token''
   \<and> user_id (snd (register_bot fallback_host new_bot)) = JStr ''@demo_ai_bot:localhost''
   \<and> trace (snd (register_bot fallback_host new_bot))
       = [Http register_request,
          Log INFO ''Bot user already exists, attempting login...'',
          Http login_request,
          Log INFO ''Bot logged in successfully'']
   \<and> user_in_use (http in_use_host (tick (logger INFO start_line new_bot)))
   \<and> granted (http in_use_host (Suc (tick (logger INFO start_line new_bot)))) = None
   \<and> \<not> fst (register_bot in_use_host (logger INFO start_line new_bot))
   \<and> run in_use_host 3 new_bot
       = logger ERROR ''Failed to register/login bot''
           (snd (register_bot in_use_host (logger INFO start_line new_bot)))
   \<and> \<not> user_in_use (http profile_error_host (tick new_bot))
   \<and> granted (http profile_error_host (tick new_bot))
       = Some (JStr ''token'', JStr ''@demo_ai_bot:localhost'', JStr ''DEV'')
   \<and> fst (register_bot profile_error_host new_bot)"
proof -
  have t: "tick new_bot = 0" "tick (logger INFO start_line new_bot) = 0"
    "trace new_bot = []"
    by (simp_all add: new_bot_def)
  have u1: "user_in_use (http fallback_host (tick new_bot))"
    by (simp add: t user_in_use_def fallback_host_def in_use_reply_def scripted_host_def)
  have g1: "granted (http fallback_host (Suc (tick new_bot)))
       = Some (JStr ''token'', JStr ''@demo_ai_bot:localhost'', JStr ''DEV'')"
    by (simp add: t granted_def fallback_host_def session_reply_def scripted_host_def)
  have u2: "user_in_use (http in_use_host (tick (logger INFO start_line new_bot)))"
    by (simp add: t user_in_use_def in_use_host_def in_use_reply_def scripted_host_def)
  have g2: "granted (http in_use_host (Suc (tick (logger INFO start_line new_bot)))) = None"
    by (simp add: t granted_def in_use_host_def scripted_host_def)
  have u3: "\<not> user_in_use (http profile_error_host (tick new_bot))"
    by (simp add: t user_in_use_def profile_error_host_def session_reply_def scripted_host_def)
  have g3: "granted (http profile_error_host (tick new_bot))
       = Some (JStr ''token'', JStr ''@demo_ai_bot:localhost'', JStr ''DEV'')"
    by (simp add: t granted_def profile_error_host_def session_reply_def scripted_host_def)
  note w1 = register_falls_back_to_login [of fallback_host new_bot 3, THEN conjunct1, THEN mp,
      OF u1, THEN conjunct2, THEN conjunct1, rule_format, OF g1]
  note w2 = register_falls_back_to_login [of in_use_host "logger INFO start_line new_bot" 3,
      THEN conjunct1, THEN mp, OF u2, THEN conjunct2, THEN conjunct2, THEN mp, OF g2,
      THEN conjunct1]
  note w3 = register_falls_back_to_login [of in_use_host new_bot 3, THEN conjunct2,
      THEN conjunct2, THEN conjunct2, THEN conjunct2, THEN conjunct1, THEN mp, OF w2]
  note w4 = register_falls_back_to_login [of profile_error_host new_bot 3, THEN conjunct2,
      THEN conjunct1, THEN mp, OF u3, THEN conjunct1, rule_format, OF g3]
  have f1: "fst (register_bot fallback_host new_bot)"
    "access_token (snd (register_bot fallback_host new_bot)) = JStr ''token''"
    "user_id (snd (register_bot fallback_host new_bot)) = JStr ''@demo_ai_bot:localhost''"
    using w1 [THEN conjunct1] by (simp_all add: logger_def emit_def next_tick_def)
  have f2: "trace (snd (register_bot fallback_host new_bot))
       = [Http register_request,
          Log INFO ''Bot user already exists, attempting login...'',
          Http login_request,
          Log INFO ''Bot logged in successfully'']"
    using w1 [THEN conjunct2] t(3) by simp
  have f4: "fst (register_bot profile_error_host new_bot)"
    using w4 by simp
  show ?thesis
    using u1 g1 f1 f2 u2 g2 w2 w3 u3 g3 f4 by (intro conjI)
qed

lemma setup_profile_warning:
  assumes "status \<noteq> 200" and "http H (tick st1) = Response status (Returned data)"
  shows "setup_profile H st1
     = (True, logger WARNING ''Profile setup warning''
                (next_tick (emit (Http (profile_request H st1)) st1)))"
  using assms by (simp add: setup_profile_def http_call_def)

lemma setup_profile_error:
  assumes "http H (tick st1) = Failed e
           \<or> (\<exists>status. status \<noteq> 200 \<and> http H (tick st1) = Response status (Raised e))"
  shows "setup_profile H st1
     = (False, logger ERROR ''Profile setup error''
                 (next_tick (emit (Http (profile_request H st1)) st1)))"
  using assms by (auto simp: setup_profile_def http_call_def)

lemma startup_after_registration:
  assumes "register_bot H (logger INFO start_line st0) = (True, st1)"
  shows "fst (startup H st0) = fst (setup_profile H st1)"
    and "\<not> fst (setup_profile H st1) \<Longrightarrow>
           run H n st0 = logger ERROR ''Failed to setup bot profile'' (snd (setup_profile H st1))"
  using assms
  by (simp_all add: run_def startup_def start_line_def split_beta)

text \<open>
  Claim C5, as stated, fails for a transport exception: the registration succeeds, the
  profile request raises, \<^verbatim>\<open>setup_profile\<close> returns \<^verbatim>\<open>False\<close> and \<^verbatim>\<open>run\<close> logs
  \<^verbatim>\<open>Failed to setup bot profile\<close> and returns without creating the room or entering the
  loop.
\<close>

theorem profile_exception_aborts_startup:
  "fst (register_bot profile_error_host (logger INFO start_line new_bot))
   \<and> http profile_error_host 1 = Failed ClientError
   \<and> \<not> fst (startup profile_error_host new_bot)
   \<and> \<not> running (run profile_error_host 3 new_bot)
   \<and> trace (run profile_error_host 3 new_bot)
       = [Log INFO start_line,
          Http register_request,
          Log INFO ''Bot registered successfully'',
          Http (profile_request profile_error_host
                  (new_bot\<lparr>access_token := JStr ''token'',
                           user_id := JStr ''@demo_ai_bot:localhost'',
                           device_id := JStr ''DEV''\<rparr>)),
          Log ERROR ''Profile setup error'',
          Log ERROR ''Failed to setup bot profile'']"
  by (simp add: run_def startup_def register_bot_def setup_profile_def store_session_def
      http_call_def profile_error_host_def session_reply_def scripted_host_def
      new_bot_def start_line_def logger_def emit_def next_tick_def profile_request_def
      bearer_def py_format_def Let_def)

text \<open>
  Claim C5, amended. After a successful registration or login, a reply to the
  profile request with a status other than 200 and a body that decodes is not critical:
  a warning is logged, \<^verbatim>\<open>setup_profile\<close> returns \<^verbatim>\<open>True\<close> and the startup goes on. When
  the profile request raises (a transport exception), or the body of the error reply
  does not decode, \<^verbatim>\<open>setup_profile\<close> logs an error and returns \<^verbatim>\<open>False\<close>, and \<^verbatim>\<open>run\<close>
  logs \<^verbatim>\<open>Failed to setup bot profile\<close> and returns.
\<close>

theorem profile_failure_policy:
  assumes "register_bot H (logger INFO start_line st0) = (True, st1)"
  shows "(\<forall>status data.
            status \<noteq> 200 \<and> http H (tick st1) = Response status (Returned data) \<longrightarrow>
              setup_profile H st1
                = (True, logger WARNING ''Profile setup warning''
                           (next_tick (emit (Http (profile_request H st1)) st1)))
              \<and> fst (startup H st0))
       \<and> (\<forall>e. http H (tick st1) = Failed e
                \<or> (\<exists>status. status \<noteq> 200 \<and> http H (tick st1) = Response status (Raised e)) \<longrightarrow>
              setup_profile H st1
                = (False, logger ERROR ''Profile setup error''
                            (next_tick (emit (Http (profile_request H st1)) st1)))
              \<and> \<not> fst (startup H st0)
              \<and> run H n st0
                  = logger ERROR ''Failed to setup bot profile''
                      (logger ERROR ''Profile setup error''
                         (next_tick (emit (Http (profile_request H st1)) st1))))"
proof (intro conjI allI impI)
  fix status data
  assume a: "status \<noteq> 200 \<and> http H (tick st1) = Response status (Returned data)"
  then have sp: "setup_profile H st1
      = (True, logger WARNING ''Profile setup warning''
                 (next_tick (emit (Http (profile_request H st1)) st1)))"
    using setup_profile_warning [of status H st1 data] by simp
  then show "setup_profile H st1
      = (True, logger WARNING ''Profile setup warning''
                 (next_tick (emit (Http (profile_request H st1)) st1)))" .
  show "fst (startup H st0)"
    using startup_after_registration(1) [OF assms] sp by simp
next
  fix e
  assume "http H (tick st1) = Failed e
     \<or> (\<exists>status. status \<noteq> 200 \<and> http H (tick st1) = Response status (Raised e))"
  from setup_profile_error [OF this] have sp: "setup_profile H st1
      = (False, logger ERROR ''Profile setup error''
                  (next_tick (emit (Http (profile_request H st1)) st1)))" .
  then show "setup_profile H st1
      = (False, logger ERROR ''Profile setup error''
                  (next_tick (emit (Http (profile_request H st1)) st1)))" .
  show "\<not> fst (startup H st0)"
    using startup_after_registration(1) [OF assms] sp by simp
  show "run H n st0
      = logger ERROR ''Failed to setup bot profile''
          (logger ERROR ''Profile setup error''
             (next_tick (emit (Http (profile_request H st1)) st1)))"
    using startup_after_registration(2) [OF assms, of n] sp by simp
qed

theorem profile_failure_policy_witness:
  "register_bot profile_warning_host (logger INFO start_line new_bot) = (True, registered_bot)
   \<and> http profile_warning_host (tick registered_bot)
       = Response 500 (Returned (JObj [(''errcode'', JStr ''M_UNKNOWN'')]))
   \<and> fst (setup_profile profile_warning_host registered_bot)
   \<and> fst (startup profile_warning_host new_bot)
   \<and> register_bot profile_error_host (logger INFO start_line new_bot) = (True, registered_bot)
   \<and> http profile_error_host (tick registered_bot) = Failed ClientError
   \<and> \<not> fst (startup profile_error_host new_bot)"
proof -
  have r1: "register_bot profile_warning_host (logger INFO start_line new_bot)
              = (True, registered_bot)"
    by (simp add: register_bot_def store_session_def http_call_def profile_warning_host_def
        session_reply_def scripted_host_def registered_bot_def new_bot_def logger_def emit_def
        next_tick_def Let_def)
  have r2: "register_bot profile_error_host (logger INFO start_line new_bot)
              = (True, registered_bot)"
    by (simp add: register_bot_def store_session_def http_call_def profile_error_host_def
        session_reply_def scripted_host_def registered_bot_def new_bot_def logger_def emit_def
        next_tick_def Let_def)
  have t: "tick registered_bot = 1"
    by (simp add: registered_bot_def new_bot_def logger_def emit_def next_tick_def)
  have h1: "http profile_warning_host (tick registered_bot)
      = Response 500 (Returned (JObj [(''errcode'', JStr ''M_UNKNOWN'')]))"
    by (simp add: t profile_warning_host_def scripted_host_def)
  have h2: "http profile_error_host (tick registered_bot) = Failed ClientError"
    by (simp add: t profile_error_host_def scripted_host_def)
  from profile_failure_policy [OF r1, of 0, THEN conjunct1, rule_format, of 500] h1
  have w: "fst (setup_profile profile_warning_host registered_bot)
           \<and> fst (startup profile_warning_host new_bot)"
    by simp
  from profile_failure_policy [OF r2, of 0, THEN conjunct2, rule_format, of ClientError] h2
  have e: "\<not> fst (startup profile_error_host new_bot)"
    by simp
  from r1 r2 h1 h2 w e show ?thesis by simp
qed

subsection \<open>The dispatcher\<close>














text \<open>
  Nor is the counter safe from the calculator: the registered command
  \<^verbatim>\<open>!calc self.stats.update(commands_processed=41)\<close> is counted, its expression is
  evaluated, and the counter ends at 41.
\<close>

lemma calculator_rewrites_counter:
  "map_of commands (command_token (rewriting_host []) (''!calc '' @ set_counter))
     = Some cmd_calculate
   \<and> commands_processed started_bot = 0
   \<and> commands_processed
        (snd (handle_command (rewriting_host []) ''!room:localhost'' (''!calc '' @ set_counter)
                (JStr ''@alice:localhost'') started_bot)) = 41"
proof -
  have "map_of commands (command_token (rewriting_host []) (''!calc '' @ set_counter))
      = Some cmd_calculate"
    by (simp only: calc_token calc_handler)
  moreover have "commands_processed started_bot = 0"
    by (simp add: started_bot_def new_bot_def)
  moreover have "commands_processed
        (snd (handle_command (rewriting_host []) ''!room:localhost'' (''!calc '' @ set_counter)
                (JStr ''@alice:localhost'') started_bot)) = 41"
    by (simp only: rewriting_command snd_conv send_message_commands_processed) simp
  ultimately show ?thesis by (intro conjI)
qed




subsection \<open>What the router hands over\<close>

lemma handovers_user_id [simp]: "handovers (st\<lparr>user_id := u\<rparr>) = handovers st"
  by (simp add: handovers_def)

lemma handovers_handler_entry:
  "handovers (handler_entry room_id command sender st)
     = handovers st @ [(room_id, command, sender)]"
  by (simp add: handovers_def trace_handler_entry)

lemma names_differ:
  "\<not> py_eq (JStr alice) (JStr own_id)" "\<not> py_eq (JStr own_id) (JStr bob)"
  "\<not> py_eq (JStr bob) (JStr own_id)" "py_eq (JStr bob) (JStr bob)"
  by (simp_all add: alice_def bob_def own_id_def)

text \<open>
  The three steps of a batch in which a user has the calculator rewrite the identity
  of the bot: the command is handed over and the identity is another one afterwards;
  a message of the bot itself is then answered; a message of the new namesake is
  dropped.
\<close>

lemma identity_rewritten:
  assumes "\<not> py_eq (JStr alice) (user_id st)"
  shows "\<exists>st1. handle_message_event (rewriting_host rs) room_id
                 (message_event alice (''!calc '' @ set_identity)) st = (Done (), st1)
           \<and> user_id st1 = JStr bob
           \<and> handovers st1 = handovers st @ [(room_id, ''!calc '' @ set_identity, JStr alice)]"
proof -
  let ?cmd = "''!calc '' @ set_identity"
  let ?st0 = "(handler_entry room_id ?cmd (JStr alice) (logger INFO ''Received message'' st))
                \<lparr>user_id := JStr bob\<rparr>"
  let ?st1 = "snd (send_message (rewriting_host rs) (JStr room_id)
                     (calc_result set_identity ''None'') ?st0)"
  have sw: "starts_with ''!'' ?cmd" by simp
  have hm: "handle_message_event (rewriting_host rs) room_id (message_event alice ?cmd) st
      = (Done (), ?st1)"
    unfolding handle_message_event_command [OF assms sw]
    by (rule rewriting_command(2))
  have "session_of ?st1 = session_of ?st0"
    by (rule session_send_message)
  from user_id_session [OF this] have u: "user_id ?st1 = JStr bob"
    by simp
  have h: "handovers ?st1 = handovers st @ [(room_id, ?cmd, JStr alice)]"
    by (simp add: handovers_handler_entry)
  from hm u h show ?thesis by blast
qed

lemma own_entry_answered:
  assumes "user_id st = JStr bob" and "\<not> starts_with ''!'' msg"
  shows "\<exists>st1. handle_message_event H room_id (message_event own_id msg) st = (Done (), st1)
           \<and> user_id st1 = JStr bob
           \<and> handovers st1 = handovers st @ [(room_id, msg, JStr own_id)]"
proof -
  let ?st1 = "snd (handle_ai_response H room_id msg (JStr own_id)
                     (logger INFO ''Received message'' st))"
  have n: "\<not> py_eq (JStr own_id) (user_id st)"
    using assms(1) names_differ(2) by simp
  have "handle_message_event H room_id (message_event own_id msg) st
      = handle_ai_response H room_id msg (JStr own_id) (logger INFO ''Received message'' st)"
    by (rule handle_message_event_text [OF n assms(2)])
  then have hm: "handle_message_event H room_id (message_event own_id msg) st = (Done (), ?st1)"
    by (simp add: prod_eq_iff)
  have "session_of ?st1 = session_of st"
    by simp
  from user_id_session [OF this] assms(1) have u: "user_id ?st1 = JStr bob"
    by simp
  have h: "handovers ?st1 = handovers st @ [(room_id, msg, JStr own_id)]"
    by (simp add: handovers_handle_ai_response)
  from hm u h show ?thesis by blast
qed

lemma handovers_started_bot: "handovers started_bot = []"
  by (simp add: handovers_def started_bot_def new_bot_def)

lemma started_bot_identity: "user_id started_bot = JStr own_id"
  by (simp add: started_bot_def new_bot_def own_id_def)

text \<open>
  Claim C2, as stated, fails when the identity of the session is rewritten while a
  batch is processed. The bot holds the identity \<^verbatim>\<open>@demo_ai_bot:localhost\<close>. A user sends
  \<^verbatim>\<open>!calc setattr(self, 'user_id', '@bob:localhost')\<close>, and the next entry of the same
  timeline is a message written by the bot itself: it is compared with the rewritten
  identity, passes, and reaches \<^verbatim>\<open>handle_ai_response\<close>.
\<close>

theorem own_message_answered:
  "user_id started_bot = JStr own_id
   \<and> new_handovers started_bot
        (snd (process_events (rewriting_host [])
                (batch_of (JStr ''s2'')
                   [(''!a:localhost'',
                     messages_of [(alice, ''!calc '' @ set_identity), (own_id, ''thanks'')])])
                started_bot))
       = [(''!a:localhost'', ''!calc '' @ set_identity, JStr alice),
          (''!a:localhost'', ''thanks'', JStr own_id)]"
proof -
  let ?H = "rewriting_host []"
  let ?r = "''!a:localhost''"
  have a: "\<not> py_eq (JStr alice) (user_id started_bot)"
    by (simp only: started_bot_identity names_differ) simp
  from identity_rewritten [OF a, of "[]" ?r] obtain st1 where
    h1: "handle_message_event ?H ?r (message_event alice (''!calc '' @ set_identity)) started_bot
           = (Done (), st1)"
    and u1: "user_id st1 = JStr bob"
    and o1: "handovers st1 = [(?r, ''!calc '' @ set_identity, JStr alice)]"
    by (auto simp: handovers_started_bot)
  have t: "\<not> starts_with ''!'' ''thanks''" by simp
  from own_entry_answered [OF u1 t, of ?H ?r] obtain st2 where
    h2: "handle_message_event ?H ?r (message_event own_id ''thanks'') st1 = (Done (), st2)"
    and o2: "handovers st2 = handovers st1 @ [(?r, ''thanks'', JStr own_id)]"
    by blast
  have "process_events ?H
          (batch_of (JStr ''s2'')
             [(?r, messages_of [(alice, ''!calc '' @ set_identity), (own_id, ''thanks'')])])
          started_bot = (Done (), st2)"
    unfolding process_events_one_room
    by (simp only: list.map prod.case handle_events_message h1 h2 completion.case
        handle_events.simps(1))
  then show ?thesis
    using o1 o2 by (simp add: new_handovers_def handovers_started_bot started_bot_identity)
qed

lemma new_handovers_handle_message_event:
  "new_handovers st (snd (handle_message_event H room_id event st)) = routed st room_id event"
  by (simp add: new_handovers_def handovers_handle_message_event)

text \<open>
  Claim C2, amended. A message event whose sender equals the identity that the bot
  holds at the moment the event is routed leaves the bot exactly as it was: nothing is
  logged, sent or handed over, and the router goes on with the rest of the timeline.
  Every call of \<^verbatim>\<open>handle_command\<close> and of \<^verbatim>\<open>handle_ai_response\<close> is recorded as a
  hand-over, and no hand-over made for an event has a sender equal to the identity
  held when the event was routed. Provided that no expression evaluated by the
  calculator changes the bot object or fails to return, that identity is the one held
  at the start of the batch: of the hand-overs made while a batch is processed none
  has a sender equal to it.
\<close>

theorem own_messages_never_dispatched:
  "(py_get event ''sender'' (JStr []) = Returned sender \<and> py_eq sender (user_id st) \<longrightarrow>
      snd (handle_message_event H room_id event st) = st)
   \<and> (py_eq (JStr me) (user_id st) \<longrightarrow>
        handle_message_event H room_id (message_event me msg) st = (Done (), st)
        \<and> handle_events H room_id (message_event me msg # rest) st
            = handle_events H room_id rest st)
   \<and> handovers (snd (handle_command H room_id msg sender st))
        = handovers st @ [(room_id, msg, sender)]
   \<and> handovers (snd (handle_ai_response H room_id msg sender st))
        = handovers st @ [(room_id, msg, sender)]
   \<and> list_all (\<lambda>(room, msg, sender). \<not> py_eq sender (user_id st))
        (new_handovers st (snd (handle_message_event H room_id event st)))
   \<and> (effect_free H \<longrightarrow>
        list_all (\<lambda>(room, msg, sender). \<not> py_eq sender (user_id st))
          (new_handovers st (snd (process_events H sync_data st))))"
proof (intro conjI impI)
  assume "py_get event ''sender'' (JStr []) = Returned sender \<and> py_eq sender (user_id st)"
  then show "snd (handle_message_event H room_id event st) = st"
    by (simp add: handle_message_event_self)
next
  assume own: "py_eq (JStr me) (user_id st)"
  show "handle_message_event H room_id (message_event me msg) st = (Done (), st)"
    by (rule handle_message_event_own [OF own])
  then show "handle_events H room_id (message_event me msg # rest) st
      = handle_events H room_id rest st"
    by (simp only: handle_events_message prod.case completion.case)
next
  show "handovers (snd (handle_command H room_id msg sender st))
      = handovers st @ [(room_id, msg, sender)]"
    by (rule handovers_handle_command)
next
  show "handovers (snd (handle_ai_response H room_id msg sender st))
      = handovers st @ [(room_id, msg, sender)]"
    by (rule handovers_handle_ai_response)
next
  show "list_all (\<lambda>(room, msg, sender). \<not> py_eq sender (user_id st))
      (new_handovers st (snd (handle_message_event H room_id event st)))"
    by (simp only: new_handovers_handle_message_event routed_foreign)
next
  assume e: "effect_free H"
  from process_events_foreign [OF e, of sync_data st] obtain new where
    "handovers (snd (process_events H sync_data st)) = handovers st @ new"
    "list_all (\<lambda>(room, msg, sender). \<not> py_eq sender (user_id st)) new"
    by blast
  then show "list_all (\<lambda>(room, msg, sender). \<not> py_eq sender (user_id st))
      (new_handovers st (snd (process_events H sync_data st)))"
    by (simp add: new_handovers_def)
qed

theorem own_messages_never_dispatched_witness:
  "py_get (message_event own_id ''hello'') ''sender'' (JStr []) = Returned (JStr own_id)
   \<and> py_eq (JStr own_id) (user_id started_bot)
   \<and> snd (handle_message_event quiet_host ''!room:localhost''
             (message_event own_id ''hello'') started_bot) = started_bot
   \<and> handle_events quiet_host ''!room:localhost''
        [message_event own_id ''hello'', message_event own_id ''!ping''] started_bot
       = (Done (), started_bot)
   \<and> effect_free quiet_host
   \<and> list_all (\<lambda>(room, msg, sender). \<not> py_eq sender (user_id started_bot))
        (new_handovers started_bot
           (snd (process_events quiet_host
                   (batch_of (JStr ''s2'')
                      [(''!a:localhost'',
                        messages_of [(alice, ''!ping''), (own_id, ''thanks'')])])
                   started_bot)))"
proof -
  have a: "py_get (message_event own_id ''hello'') ''sender'' (JStr []) = Returned (JStr own_id)
      \<and> py_eq (JStr own_id) (user_id started_bot)"
    by (simp add: message_event_def started_bot_identity)
  have e: "effect_free quiet_host"
    by (simp add: quiet_host_def scripted_effect_free)
  note t = own_messages_never_dispatched [of _ _ started_bot quiet_host "''!room:localhost''"]
  note own = t [THEN conjunct2, THEN conjunct1, THEN mp, OF a [THEN conjunct2], THEN conjunct2]
  have "handle_events quiet_host ''!room:localhost''
        [message_event own_id ''hello'', message_event own_id ''!ping''] started_bot
       = (Done (), started_bot)"
    by (simp only: own handle_events.simps(1))
  moreover note t [THEN conjunct1, THEN mp, OF a]
    t [THEN conjunct2, THEN conjunct2, THEN conjunct2, THEN conjunct2, THEN conjunct2,
      THEN mp, OF e]
  ultimately show ?thesis
    using a e by (intro conjI) simp_all
qed

lemma routed_message_event:
  "user_id st = JStr me \<Longrightarrow>
     routed st room_id (message_event sender msg)
       = (if sender = me then [] else [(room_id, msg, JStr sender)])"
  by (simp add: routed_def message_event_def)

lemma handle_message_event_done:
  assumes "wf_rooms st" and "effect_free H"
  shows "fst (handle_message_event H room_id (message_event sender msg) st) = Done ()"
proof -
  let ?st1 = "logger INFO ''Received message'' st"
  have wf: "wf_rooms ?st1"
    using assms(1) by (simp add: wf_rooms_def logger_def emit_def)
  have "fst (handle_command H room_id msg (JStr sender) ?st1) = Done ()"
  proof (cases "fst (handle_command H room_id msg (JStr sender) ?st1)")
    case (Done u)
    then show ?thesis by simp
  next
    case (Thrown e)
    then show ?thesis
      using handle_command_not_thrown [OF wf, of H room_id msg "JStr sender" e] by simp
  next
    case Never_returns
    then show ?thesis
      using handle_command_effect_free(2) [OF assms(2), of room_id msg "JStr sender" ?st1]
      by simp
  qed
  then show ?thesis
    by (simp add: handle_message_event_def message_event_def Let_def)
qed

lemma handle_events_messages:
  assumes "effect_free H"
  shows "wf_rooms st \<Longrightarrow> user_id st = JStr me \<Longrightarrow>
     fst (handle_events H room_id (map (\<lambda>(sender, msg). message_event sender msg) entries) st)
           = Done ()
       \<and> handovers (snd (handle_events H room_id
                             (map (\<lambda>(sender, msg). message_event sender msg) entries) st))
           = handovers st
             @ map (\<lambda>(sender, msg). (room_id, msg, JStr sender))
                   (filter (\<lambda>(sender, msg). sender \<noteq> me) entries)"
proof (induction entries arbitrary: st)
  case Nil
  show ?case by simp
next
  case (Cons entry rest)
  obtain sender msg where e: "entry = (sender, msg)"
    by (cases entry)
  obtain r st1 where h:
    "handle_message_event H room_id (message_event sender msg) st = (r, st1)"
    by (cases "handle_message_event H room_id (message_event sender msg) st")
  from handle_message_event_done [OF Cons.prems(1) assms, of room_id sender msg] h
  have r: "r = Done ()" by simp
  from handle_message_event_effect_free(1) [OF assms, of room_id "message_event sender msg" st] h
  have s: "session_of st1 = session_of st" by simp
  have wf: "wf_rooms st1" using wf_rooms_session [OF s] Cons.prems(1) by simp
  have u: "user_id st1 = JStr me" using user_id_session [OF s] Cons.prems(2) by simp
  have ho: "handovers st1
      = handovers st @ (if sender = me then [] else [(room_id, msg, JStr sender)])"
    using handovers_handle_message_event [of H room_id "message_event sender msg" st] h
      routed_message_event [OF Cons.prems(2), of room_id sender msg]
    by simp
  from Cons.IH [OF wf u] ho show ?case
    using e h r by (simp add: message_event_type)
qed

lemma process_events_two_rooms:
  assumes "effect_free H" and "wf_rooms st" and "user_id st = JStr me"
  shows "fst (process_events H (batch_of cursor [(r1, messages_of xs), (r2, messages_of ys)]) st)
           = Done ()
       \<and> handovers (snd (process_events H
                             (batch_of cursor [(r1, messages_of xs), (r2, messages_of ys)]) st))
           = handovers st
             @ map (\<lambda>(sender, msg). (r1, msg, JStr sender))
                   (filter (\<lambda>(sender, msg). sender \<noteq> me) xs)
             @ map (\<lambda>(sender, msg). (r2, msg, JStr sender))
                   (filter (\<lambda>(sender, msg). sender \<noteq> me) ys)"
proof -
  let ?ex = "map (\<lambda>(sender, msg). message_event sender msg) xs"
  let ?ey = "map (\<lambda>(sender, msg). message_event sender msg) ys"
  obtain q st1 where h1: "handle_events H r1 ?ex st = (q, st1)"
    by (cases "handle_events H r1 ?ex st")
  from handle_events_messages [OF assms, of r1 xs] h1
  have q: "q = Done ()"
    and ho1: "handovers st1 = handovers st
        @ map (\<lambda>(sender, msg). (r1, msg, JStr sender)) (filter (\<lambda>(sender, msg). sender \<noteq> me) xs)"
    by simp_all
  from handle_events_effect_free [OF assms(1), of r1 ?ex st] h1
  have s: "session_of st1 = session_of st" by simp
  have wf: "wf_rooms st1" using wf_rooms_session [OF s] assms(2) by simp
  have u: "user_id st1 = JStr me" using user_id_session [OF s] assms(3) by simp
  obtain p st2 where h2: "handle_events H r2 ?ey st1 = (p, st2)"
    by (cases "handle_events H r2 ?ey st1")
  from handle_events_messages [OF assms(1) wf u, of r2 ys] h2
  have p: "p = Done ()"
    and ho2: "handovers st2 = handovers st1
        @ map (\<lambda>(sender, msg). (r2, msg, JStr sender)) (filter (\<lambda>(sender, msg). sender \<noteq> me) ys)"
    by simp_all
  have "process_events H (batch_of cursor [(r1, messages_of xs), (r2, messages_of ys)]) st
      = (Done (), st2)"
    unfolding process_events_two_rooms_unfold
    using h1 h2 q p by simp
  then show ?thesis using ho1 ho2 by simp
qed

text \<open>
  Claim C3, as stated, fails when one of the two foreign entries has the calculator
  rewrite the identity of the bot. The batch has two rooms; the timeline of one holds
  three message entries, the second written by the bot itself
  (\<^verbatim>\<open>@demo_ai_bot:localhost\<close>), the first and the third by others. The first is
  \<^verbatim>\<open>!calc setattr(self, 'user_id', '@bob:localhost')\<close>. Two messages are handed over,
  but they are the first entry and the bot's own; the third entry, from
  \<^verbatim>\<open>@bob:localhost\<close>, is dropped.
\<close>

theorem rewritten_identity_misroutes:
  "user_id started_bot = JStr own_id
   \<and> alice \<noteq> own_id \<and> bob \<noteq> own_id
   \<and> new_handovers started_bot
        (snd (process_events (rewriting_host [])
                (batch_of (JStr ''s2'')
                   [(''!a:localhost'',
                     messages_of [(alice, ''!calc '' @ set_identity), (own_id, ''hello''),
                                  (bob, ''!ping'')]),
                    (''!b:localhost'', messages_of [])])
                started_bot))
       = [(''!a:localhost'', ''!calc '' @ set_identity, JStr alice),
          (''!a:localhost'', ''hello'', JStr own_id)]"
proof -
  let ?H = "rewriting_host []"
  let ?r = "''!a:localhost''"
  have a: "\<not> py_eq (JStr alice) (user_id started_bot)"
    by (simp only: started_bot_identity names_differ) simp
  from identity_rewritten [OF a, of "[]" ?r] obtain st1 where
    h1: "handle_message_event ?H ?r (message_event alice (''!calc '' @ set_identity)) started_bot
           = (Done (), st1)"
    and u1: "user_id st1 = JStr bob"
    and o1: "handovers st1 = [(?r, ''!calc '' @ set_identity, JStr alice)]"
    by (auto simp: handovers_started_bot)
  have t: "\<not> starts_with ''!'' ''hello''" by simp
  from own_entry_answered [OF u1 t, of ?H ?r] obtain st2 where
    h2: "handle_message_event ?H ?r (message_event own_id ''hello'') st1 = (Done (), st2)"
    and u2: "user_id st2 = JStr bob"
    and o2: "handovers st2 = handovers st1 @ [(?r, ''hello'', JStr own_id)]"
    by blast
  have "py_eq (JStr bob) (user_id st2)"
    by (simp only: u2 names_differ)
  then have h3: "handle_message_event ?H ?r (message_event bob ''!ping'') st2 = (Done (), st2)"
    by (rule handle_message_event_own)
  have "process_events ?H
          (batch_of (JStr ''s2'')
             [(?r, messages_of [(alice, ''!calc '' @ set_identity), (own_id, ''hello''),
                                (bob, ''!ping'')]),
              (''!b:localhost'', messages_of [])])
          started_bot = (Done (), st2)"
    unfolding process_events_two_rooms_unfold
    by (simp only: list.map prod.case handle_events_message h1 h2 h3 completion.case
        handle_events.simps(1))
  then show ?thesis
    using o1 o2
    by (simp add: new_handovers_def handovers_started_bot started_bot_identity)
       (simp add: alice_def bob_def own_id_def)
qed

text \<open>
  Claim C3, amended. A batch with two rooms, one whose timeline holds three message
  entries of which exactly one is written by the bot itself, the other with no entry.
  Provided that no expression evaluated by the calculator changes the bot object or
  fails to return, and that the ids in the room table are strings, the processing of
  the batch returns normally and hands over exactly two messages, the two entries of
  other senders, in the order of the timeline. This holds whichever of the two rooms
  comes first in the batch.
\<close>

theorem two_foreign_entries_routed:
  assumes "effect_free H" and "user_id st = JStr me" and "wf_rooms st"
    and "length entries = 3"
    and "length (filter (\<lambda>(sender, msg). sender = me) entries) = 1"
  shows "fst (process_events H (batch_of cursor [(r1, messages_of entries), (r2, messages_of [])]) st)
           = Done ()
       \<and> new_handovers st
            (snd (process_events H
                    (batch_of cursor [(r1, messages_of entries), (r2, messages_of [])]) st))
           = map (\<lambda>(sender, msg). (r1, msg, JStr sender))
                 (filter (\<lambda>(sender, msg). sender \<noteq> me) entries)
       \<and> new_handovers st
            (snd (process_events H
                    (batch_of cursor [(r2, messages_of []), (r1, messages_of entries)]) st))
           = map (\<lambda>(sender, msg). (r1, msg, JStr sender))
                 (filter (\<lambda>(sender, msg). sender \<noteq> me) entries)
       \<and> length (filter (\<lambda>(sender, msg). sender \<noteq> me) entries) = 2"
proof -
  have "filter (\<lambda>(sender, msg). sender \<noteq> me) entries
      = filter (\<lambda>x. \<not> (case x of (sender, msg) \<Rightarrow> sender = me)) entries"
    by (rule filter_cong) auto
  then have two: "length (filter (\<lambda>(sender, msg). sender \<noteq> me) entries) = 2"
    using sum_length_filter_compl [of "\<lambda>(sender, msg). sender = me" entries] assms(4,5)
    by simp
  from process_events_two_rooms [OF assms(1,3,2), of cursor r1 entries r2 "[]"]
    process_events_two_rooms [OF assms(1,3,2), of cursor r2 "[]" r1 entries]
    two
  show ?thesis by (simp add: new_handovers_def)
qed

theorem two_foreign_entries_routed_witness:
  "effect_free quiet_host
   \<and> user_id started_bot = JStr own_id \<and> wf_rooms started_bot
   \<and> length three_entries = 3
   \<and> length (filter (\<lambda>(sender, msg). sender = own_id) three_entries) = 1
   \<and> fst (process_events quiet_host
             (batch_of (JStr ''s2'') [(''!a:localhost'', messages_of three_entries),
                                      (''!b:localhost'', messages_of [])]) started_bot)
       = Done ()
   \<and> new_handovers started_bot
        (snd (process_events quiet_host
                (batch_of (JStr ''s2'') [(''!a:localhost'', messages_of three_entries),
                                         (''!b:localhost'', messages_of [])]) started_bot))
       = [(''!a:localhost'', ''good morning'', JStr alice), (''!a:localhost'', ''!ping'', JStr bob)]"
proof -
  have e: "effect_free quiet_host"
    by (simp add: quiet_host_def scripted_effect_free)
  have a: "user_id started_bot = JStr own_id"
    by (rule started_bot_identity)
  have b: "wf_rooms started_bot"
    by (simp add: wf_rooms_def started_bot_def new_bot_def)
  have c: "length three_entries = 3"
    by (simp add: three_entries_def)
  have d: "length (filter (\<lambda>(sender, msg). sender = own_id) three_entries) = 1"
    by (simp add: three_entries_def alice_def bob_def own_id_def)
  have f: "filter (\<lambda>(sender, msg). sender \<noteq> own_id) three_entries
      = [(alice, ''good morning''), (bob, ''!ping'')]"
    by (simp add: three_entries_def alice_def bob_def own_id_def)
  from two_foreign_entries_routed
    [OF e a b c d, of "JStr ''s2''" "''!a:localhost''" "''!b:localhost''"]
  show ?thesis using e a b c d by (simp only: f) simp
qed
end
